theory Spec2Isabelle
  imports Complex_Main
begin

section \<open>Record trees and the Python operations the reader applies to them\<close>

text \<open>
  The reader (\<^verbatim>\<open>rdwr/reader.py\<close>) never sees XML: the schema library decodes every file
  into a tree of Python values (\<^verbatim>\<open>None\<close>, booleans, numbers, strings, lists and
  dictionaries keyed by tag or \<^verbatim>\<open>@attribute\<close> name), and every \<^verbatim>\<open>build*\<close> function walks
  such a tree. A dictionary is an association list (the decoder emits one entry per key); a
  float is carried through the builders untouched and is held as a rational.
\<close>

datatype pyval =
    PNone
  | PBool bool
  | PInt int
  | PFloat rat
  | PStr string
  | PList "pyval list"
  | PDict "(string \<times> pyval) list"

text \<open>
  Every \<^verbatim>\<open>raise\<close> of the source and every exception of the interpreter the source can run
  into is a value. \<open>LibraryError\<close> stands for what the zip, file and schema libraries raise;
  it is never a \<open>KeyError\<close>.
\<close>

datatype pyerr =
    KeyError string
  | TypeError
  | ValueError
  | AttributeError
  | NameError
  | LibraryError

definition ebind :: "'e + 'a \<Rightarrow> ('a \<Rightarrow> 'e + 'b) \<Rightarrow> 'e + 'b" where
  "ebind m f = (case m of Inl e \<Rightarrow> Inl e | Inr x \<Rightarrow> f x)"

text \<open>A list comprehension evaluates its body left to right and stops at the first raise.\<close>

fun emap :: "('a \<Rightarrow> 'e + 'b) \<Rightarrow> 'a list \<Rightarrow> 'e + 'b list" where
  "emap f [] = Inr []"
| "emap f (x # xs) = ebind (f x) (\<lambda>y. ebind (emap f xs) (\<lambda>ys. Inr (y # ys)))"

text \<open>Truth value testing (\<^verbatim>\<open>if x:\<close>) of the values a record tree holds.\<close>

fun truthy :: "pyval \<Rightarrow> bool" where
  "truthy PNone = False"
| "truthy (PBool b) = b"
| "truthy (PInt i) = (i \<noteq> 0)"
| "truthy (PFloat r) = (r \<noteq> 0)"
| "truthy (PStr s) = (s \<noteq> [])"
| "truthy (PList xs) = (xs \<noteq> [])"
| "truthy (PDict kvs) = (kvs \<noteq> [])"

fun startswith :: "string \<Rightarrow> string \<Rightarrow> bool" where
  "startswith s [] = True"
| "startswith [] (c # cs) = False"
| "startswith (a # s) (c # cs) = (a = c \<and> startswith s cs)"

fun substring :: "string \<Rightarrow> string \<Rightarrow> bool" where
  "substring k [] = (k = [])"
| "substring k (c # cs) = (startswith (c # cs) k \<or> substring k cs)"

text \<open>
  \<^verbatim>\<open>key in d\<close> for a string key: membership among the keys of a dictionary, among the
  elements of a list, substring test on a string, \<^verbatim>\<open>TypeError\<close> on anything else.
\<close>

fun py_in :: "string \<Rightarrow> pyval \<Rightarrow> pyerr + bool" where
  "py_in k (PDict kvs) = Inr (k \<in> set (map fst kvs))"
| "py_in k (PList xs) = Inr (PStr k \<in> set xs)"
| "py_in k (PStr s) = Inr (substring k s)"
| "py_in k PNone = Inl TypeError"
| "py_in k (PBool b) = Inl TypeError"
| "py_in k (PInt i) = Inl TypeError"
| "py_in k (PFloat r) = Inl TypeError"

text \<open>
  \<^verbatim>\<open>d[key]\<close> for a string key: the value or \<^verbatim>\<open>KeyError\<close> on a dictionary, \<^verbatim>\<open>TypeError\<close> on
  everything else (a list or string wants an integer index, the rest is not subscriptable).
\<close>

fun py_getitem :: "pyval \<Rightarrow> string \<Rightarrow> pyerr + pyval" where
  "py_getitem (PDict kvs) k = (case map_of kvs k of None \<Rightarrow> Inl (KeyError k) | Some v \<Rightarrow> Inr v)"
| "py_getitem PNone k = Inl TypeError"
| "py_getitem (PBool b) k = Inl TypeError"
| "py_getitem (PInt i) k = Inl TypeError"
| "py_getitem (PFloat r) k = Inl TypeError"
| "py_getitem (PStr s) k = Inl TypeError"
| "py_getitem (PList xs) k = Inl TypeError"

text \<open>
  What a \<^verbatim>\<open>for\<close> loop or comprehension iterates over: the elements of a list, the keys of a
  dictionary, the characters of a string; the other values are not iterable.
\<close>

fun py_iter :: "pyval \<Rightarrow> pyerr + pyval list" where
  "py_iter (PList xs) = Inr xs"
| "py_iter (PDict kvs) = Inr (map (\<lambda>kv. PStr (fst kv)) kvs)"
| "py_iter (PStr s) = Inr (map (\<lambda>c. PStr [c]) s)"
| "py_iter PNone = Inl TypeError"
| "py_iter (PBool b) = Inl TypeError"
| "py_iter (PInt i) = Inl TypeError"
| "py_iter (PFloat r) = Inl TypeError"

fun py_len :: "pyval \<Rightarrow> pyerr + nat" where
  "py_len (PList xs) = Inr (length xs)"
| "py_len (PDict kvs) = Inr (length kvs)"
| "py_len (PStr s) = Inr (length s)"
| "py_len PNone = Inl TypeError"
| "py_len (PBool b) = Inl TypeError"
| "py_len (PInt i) = Inl TypeError"
| "py_len (PFloat r) = Inl TypeError"

definition comprehension :: "(pyval \<Rightarrow> pyerr + 'b) \<Rightarrow> pyval \<Rightarrow> pyerr + 'b list" where
  "comprehension f v = ebind (py_iter v) (emap f)"

subsection \<open>\<^verbatim>\<open>getOptionalFromDict\<close> (reader.py, line 109)\<close>

definition getOptionalFromDict :: "pyval \<Rightarrow> string \<Rightarrow> pyval \<Rightarrow> pyerr + pyval" where
  "getOptionalFromDict d desiredValue empty_value =
     ebind (py_in desiredValue d)
       (\<lambda>present. if present then py_getitem d desiredValue else Inr empty_value)"

section \<open>Components of a viewpoint\<close>

text \<open>
  The classes of \<^verbatim>\<open>rdwr/viewpoint.py\<close> are not part of the sources at hand; each is held as
  the record of the arguments its constructor receives, in the constructor's order.
\<close>

record ViewSetupHints =
  vsh_openingsVisible :: pyval
  vsh_spacesVisible :: pyval
  vsh_spaceBoundariesVisible :: pyval

record Component =
  cp_ifcId :: pyval
  cp_originatingSystem :: pyval
  cp_authoringToolId :: pyval

record ComponentColour =
  cc_colour :: pyval
  cc_components :: "Component list"

record Components =
  cs_defaultVisibility :: pyval
  cs_exceptions :: "Component list"
  cs_selection :: "Component list"
  cs_viewSetupHints :: "ViewSetupHints option"
  cs_colouring :: "ComponentColour option list"

definition buildViewSetupHints :: "pyval \<Rightarrow> pyerr + ViewSetupHints" where
  "buildViewSetupHints vshDict =
     ebind (getOptionalFromDict vshDict ''@SpacesVisible'' (PBool False)) (\<lambda>spacesVisible.
     ebind (getOptionalFromDict vshDict ''@SpaceBoundariesVisible'' (PBool False))
       (\<lambda>spaceBoundariesVisible.
     ebind (getOptionalFromDict vshDict ''@OpeningsVisible'' (PBool False)) (\<lambda>openingsVisible.
     Inr \<lparr>vsh_openingsVisible = openingsVisible, vsh_spacesVisible = spacesVisible,
          vsh_spaceBoundariesVisible = spaceBoundariesVisible\<rparr>)))"

definition buildComponent :: "pyval \<Rightarrow> pyerr + Component" where
  "buildComponent componentDict =
     ebind (getOptionalFromDict componentDict ''@IfcGuid'' PNone) (\<lambda>ifcId.
     ebind (getOptionalFromDict componentDict ''AuthoringToolId'' (PStr '''')) (\<lambda>authoringToolId.
     ebind (getOptionalFromDict componentDict ''OriginatingSystem'' (PStr ''''))
       (\<lambda>originatingSystem.
     Inr \<lparr>cp_ifcId = ifcId, cp_originatingSystem = originatingSystem,
          cp_authoringToolId = authoringToolId\<rparr>)))"

text \<open>
  \<^verbatim>\<open>buildComponentColour\<close> (line 419): the entry is constructed only under \<^verbatim>\<open>if colour:\<close>;
  otherwise the function returns \<^verbatim>\<open>None\<close>.
\<close>

definition buildComponentColour :: "pyval \<Rightarrow> pyerr + ComponentColour option" where
  "buildComponentColour ccDict =
     ebind (getOptionalFromDict ccDict ''@Color'' PNone) (\<lambda>colour.
     if truthy colour then
       ebind (py_getitem ccDict ''Component'') (\<lambda>componentList.
       ebind (comprehension buildComponent componentList) (\<lambda>colourComponentList.
       Inr (Some \<lparr>cc_colour = colour, cc_components = colourComponentList\<rparr>)))
     else Inr None)"

definition buildComponents :: "pyval \<Rightarrow> pyerr + Components" where
  "buildComponents componentsDict =
     ebind (getOptionalFromDict componentsDict ''ViewSetupHints'' PNone) (\<lambda>vshDict.
     ebind (if truthy vshDict then ebind (buildViewSetupHints vshDict) (\<lambda>v. Inr (Some v))
            else Inr None) (\<lambda>vsh.
     ebind (getOptionalFromDict componentsDict ''Selection'' PNone) (\<lambda>componentDict.
     ebind (if truthy componentDict then
              ebind (py_getitem componentDict ''Component'') (comprehension buildComponent)
            else Inr []) (\<lambda>sel.
     ebind (py_getitem componentsDict ''Visibility'') (\<lambda>visibilityDict.
     ebind (getOptionalFromDict visibilityDict ''@DefaultVisibility'' (PBool True))
       (\<lambda>defaultVisibility.
     ebind (getOptionalFromDict visibilityDict ''Exceptions'' PNone) (\<lambda>exceptionDict.
     ebind (if truthy exceptionDict then
              ebind (py_getitem exceptionDict ''Component'') (comprehension buildComponent)
            else Inr []) (\<lambda>exceptions.
     ebind (getOptionalFromDict componentsDict ''Coloring'' PNone) (\<lambda>colourComponentDict.
     ebind (if truthy colourComponentDict then
              ebind (py_getitem colourComponentDict ''Color'')
                (comprehension buildComponentColour)
            else Inr []) (\<lambda>componentColours.
     Inr \<lparr>cs_defaultVisibility = defaultVisibility, cs_exceptions = exceptions,
          cs_selection = sel, cs_viewSetupHints = vsh,
          cs_colouring = componentColours\<rparr>))))))))))"

section \<open>What the reader takes from outside\<close>

text \<open>
  The reader calls the standard library (\<^verbatim>\<open>uuid\<close>, \<^verbatim>\<open>os.path\<close>, \<^verbatim>\<open>zipfile\<close>), two packages
  (\<^verbatim>\<open>dateutil\<close>, \<^verbatim>\<open>xmlschema\<close>) and the plugin's \<^verbatim>\<open>util\<close> module, none of which is part of
  the sources at hand. Their behaviour is a parameter of every definition below: one record
  of functions, over a type \<open>'u\<close> of identifiers and a type \<open>'d\<close> of timestamps.
  \<^item> \<open>UUID v\<close> is \<^verbatim>\<open>UUID(v)\<close>, \<open>UUID_int n\<close> is \<^verbatim>\<open>UUID(int=n)\<close>, \<open>dateutil_parse v\<close> is
    \<^verbatim>\<open>dateutil.parser.parse(v)\<close>; the first and the last may raise.
  \<^item> \<open>to_dict_lax schema file\<close> is the record tree of
    \<^verbatim>\<open>XMLSchema(schema).to_dict(file, validation="lax")\<close> (its list of diagnostics is only
    printed), \<open>to_dict_strict schema file\<close> that of \<^verbatim>\<open>XMLSchema(schema).to_dict(file)\<close>;
    \<open>validate schema file\<close> is \<open>Inr None\<close> when \<^verbatim>\<open>XMLSchema(schema).validate(file)\<close> returns,
    \<open>Inr (Some msg)\<close> when it raises an exception whose text is \<open>msg\<close>, and \<open>Inl e\<close> when the
    schema itself cannot be loaded.
  \<^item> \<open>path_exists\<close>, \<open>abspath\<close>, \<open>ZipFile\<close>, \<open>extractall\<close>: the file system and the archive.
  \<^item> \<open>getSystemTmp\<close>, \<open>copySchemas\<close>, \<open>getDirectories\<close>: functions of \<^verbatim>\<open>util\<close>;
    \<open>printErr_file_keyword\<close> is what \<^verbatim>\<open>util.printErr(msg, file=sys.stderr)\<close> raises, if it
    does; \<open>DEBUG\<close> is the flag of \<^verbatim>\<open>util\<close> under which the reader imports \<^verbatim>\<open>pprint\<close>.
\<close>

record zipfile =
  zf_filename :: string

record ('u, 'd) env =
  UUID :: "pyval \<Rightarrow> pyerr + 'u"
  UUID_int :: "int \<Rightarrow> 'u"
  dateutil_parse :: "pyval \<Rightarrow> pyerr + 'd"
  to_dict_lax :: "string \<Rightarrow> string \<Rightarrow> pyerr + pyval"
  to_dict_strict :: "string \<Rightarrow> string \<Rightarrow> pyerr + pyval"
  validate :: "string \<Rightarrow> string \<Rightarrow> pyerr + string option"
  path_exists :: "string \<Rightarrow> bool"
  abspath :: "string \<Rightarrow> string"
  ZipFile :: "string \<Rightarrow> pyerr + zipfile"
  extractall :: "zipfile \<Rightarrow> string \<Rightarrow> pyerr + unit"
  getSystemTmp :: string
  copySchemas :: "string \<Rightarrow>
     string option \<times> string option \<times> string option \<times> string option \<times> string option"
  getDirectories :: "string \<Rightarrow> string list"
  printErr_file_keyword :: "pyerr option"
  DEBUG :: bool

text \<open>The class \<^verbatim>\<open>Uri\<close> (\<^verbatim>\<open>rdwr/uri.py\<close>) wraps the decoded locator; the reader reads its \<^verbatim>\<open>uri\<close>.\<close>

record Uri =
  uri :: pyval

text \<open>
  Several builders follow the pattern \<^verbatim>\<open>x = getOptionalFromDict(d, k, None); if x: x = C(x)\<close>:
  a value that counts as true is wrapped, and a value that counts as false stays in the
  field as it was decoded. \<open>Built\<close> is the first case, \<open>Undecoded\<close> the second.
\<close>

datatype 'a wrapped = Built 'a | Undecoded pyval

definition wrap_if_true :: "(pyval \<Rightarrow> pyerr + 'a) \<Rightarrow> pyval \<Rightarrow> pyerr + 'a wrapped" where
  "wrap_if_true C x = (if truthy x then ebind (C x) (\<lambda>y. Inr (Built y)) else Inr (Undecoded x))"

definition Uri_init :: "pyval \<Rightarrow> pyerr + Uri" where
  "Uri_init x = Inr \<lparr>uri = x\<rparr>"

section \<open>Geometry, cameras and the viewpoint\<close>

record Point =
  pt_x :: pyval
  pt_y :: pyval
  pt_z :: pyval

record Direction =
  dir_x :: pyval
  dir_y :: pyval
  dir_z :: pyval

record Line =
  ln_start :: Point
  ln_end :: Point

record ClippingPlane =
  clip_location :: Point
  clip_direction :: Direction

record OrthogonalCamera =
  oc_viewPoint :: Point
  oc_direction :: Direction
  oc_upVector :: Direction
  oc_viewWorldScale :: pyval

record PerspectiveCamera =
  pc_viewPoint :: Point
  pc_direction :: Direction
  pc_upVector :: Direction
  pc_fieldOfView :: pyval

datatype BitmapFormat = JPG | PNG

record Bitmap =
  bm_format :: BitmapFormat
  bm_reference :: pyval
  bm_location :: Point
  bm_normal :: Direction
  bm_upVector :: Direction
  bm_height :: pyval

record 'u Viewpoint =
  vp_id :: 'u
  vp_components :: "Components option"
  vp_oCamera :: "OrthogonalCamera option"
  vp_pCamera :: "PerspectiveCamera option"
  vp_lines :: "Line list"
  vp_clippingPlanes :: "ClippingPlane list"
  vp_bitmaps :: "Bitmap list"

definition buildPoint :: "pyval \<Rightarrow> pyerr + Point" where
  "buildPoint pointDict =
     ebind (py_getitem pointDict ''X'') (\<lambda>x.
     ebind (py_getitem pointDict ''Y'') (\<lambda>y.
     ebind (py_getitem pointDict ''Z'') (\<lambda>z.
     Inr \<lparr>pt_x = x, pt_y = y, pt_z = z\<rparr>)))"

definition buildDirection :: "pyval \<Rightarrow> pyerr + Direction" where
  "buildDirection dirDict =
     ebind (py_getitem dirDict ''X'') (\<lambda>x.
     ebind (py_getitem dirDict ''Y'') (\<lambda>y.
     ebind (py_getitem dirDict ''Z'') (\<lambda>z.
     Inr \<lparr>dir_x = x, dir_y = y, dir_z = z\<rparr>)))"

definition buildOrthogonalCamera :: "pyval \<Rightarrow> pyerr + OrthogonalCamera" where
  "buildOrthogonalCamera oCamDict =
     ebind (ebind (py_getitem oCamDict ''CameraViewPoint'') buildPoint) (\<lambda>camViewpoint.
     ebind (ebind (py_getitem oCamDict ''CameraDirection'') buildDirection) (\<lambda>camDirection.
     ebind (ebind (py_getitem oCamDict ''CameraUpVector'') buildDirection) (\<lambda>camUpVector.
     ebind (py_getitem oCamDict ''ViewToWorldScale'') (\<lambda>vWorldScale.
     Inr \<lparr>oc_viewPoint = camViewpoint, oc_direction = camDirection,
          oc_upVector = camUpVector, oc_viewWorldScale = vWorldScale\<rparr>))))"

definition buildPerspectiveCamera :: "pyval \<Rightarrow> pyerr + PerspectiveCamera" where
  "buildPerspectiveCamera pCamDict =
     ebind (ebind (py_getitem pCamDict ''CameraViewPoint'') buildPoint) (\<lambda>camViewpoint.
     ebind (ebind (py_getitem pCamDict ''CameraDirection'') buildDirection) (\<lambda>camDirection.
     ebind (ebind (py_getitem pCamDict ''CameraUpVector'') buildDirection) (\<lambda>camUpVector.
     ebind (py_getitem pCamDict ''FieldOfView'') (\<lambda>fieldOfView.
     Inr \<lparr>pc_viewPoint = camViewpoint, pc_direction = camDirection,
          pc_upVector = camUpVector, pc_fieldOfView = fieldOfView\<rparr>))))"

definition buildLine :: "pyval \<Rightarrow> pyerr + Line" where
  "buildLine lineDict =
     ebind (ebind (py_getitem lineDict ''StartPoint'') buildPoint) (\<lambda>start.
     ebind (ebind (py_getitem lineDict ''EndPoint'') buildPoint) (\<lambda>endpoint.
     Inr \<lparr>ln_start = start, ln_end = endpoint\<rparr>))"

definition buildClippingPlane :: "pyval \<Rightarrow> pyerr + ClippingPlane" where
  "buildClippingPlane clipDict =
     ebind (ebind (py_getitem clipDict ''Location'') buildPoint) (\<lambda>location.
     ebind (ebind (py_getitem clipDict ''Direction'') buildDirection) (\<lambda>direction.
     Inr \<lparr>clip_location = location, clip_direction = direction\<rparr>))"

definition buildBitmap :: "pyval \<Rightarrow> pyerr + Bitmap" where
  "buildBitmap bmDict =
     ebind (py_getitem bmDict ''Bitmap'') (\<lambda>bmFormatStr.
     ebind (py_getitem bmDict ''Reference'') (\<lambda>reference.
     ebind (ebind (py_getitem bmDict ''Location'') buildPoint) (\<lambda>location.
     ebind (ebind (py_getitem bmDict ''Normal'') buildDirection) (\<lambda>normal.
     ebind (ebind (py_getitem bmDict ''Up'') buildDirection) (\<lambda>up.
     ebind (py_getitem bmDict ''Height'') (\<lambda>height.
     Inr \<lparr>bm_format = (if bmFormatStr = PStr ''PNG'' then PNG else JPG),
          bm_reference = reference, bm_location = location, bm_normal = normal,
          bm_upVector = up, bm_height = height\<rparr>))))))"

text \<open>
  \<^verbatim>\<open>buildViewpoint\<close> (line 539). Each of the two cameras is built under its own \<^verbatim>\<open>if\<close>, and
  both results are handed to the constructor.
\<close>

definition buildViewpoint :: "('u, 'd) env \<Rightarrow> string \<Rightarrow> string \<Rightarrow> pyerr + 'u Viewpoint" where
  "buildViewpoint env viewpointFilePath viewpointSchemaPath =
     ebind (to_dict_lax env viewpointSchemaPath viewpointFilePath) (\<lambda>vpDict.
     ebind (ebind (py_getitem vpDict ''@Guid'') (UUID env)) (\<lambda>ident.
     ebind (getOptionalFromDict vpDict ''Components'' PNone) (\<lambda>componentsDict.
     ebind (if truthy componentsDict
            then ebind (buildComponents componentsDict) (\<lambda>c. Inr (Some c))
            else Inr None) (\<lambda>components.
     ebind (getOptionalFromDict vpDict ''OrthogonalCamera'' PNone) (\<lambda>oCamDict.
     ebind (if truthy oCamDict
            then ebind (buildOrthogonalCamera oCamDict) (\<lambda>c. Inr (Some c))
            else Inr None) (\<lambda>oCam.
     ebind (getOptionalFromDict vpDict ''PerspectiveCamera'' PNone) (\<lambda>pCamDict.
     ebind (if truthy pCamDict
            then ebind (buildPerspectiveCamera pCamDict) (\<lambda>c. Inr (Some c))
            else Inr None) (\<lambda>pCam.
     ebind (getOptionalFromDict vpDict ''Lines'' PNone) (\<lambda>linesDict.
     ebind (if truthy linesDict
            then ebind (getOptionalFromDict linesDict ''Line'' (PList []))
                   (comprehension buildLine)
            else Inr []) (\<lambda>lines.
     ebind (getOptionalFromDict vpDict ''ClippingPlanes'' PNone) (\<lambda>clippingPlaneDict.
     ebind (if truthy clippingPlaneDict
            then ebind (getOptionalFromDict clippingPlaneDict ''ClippingPlane'' (PList []))
                   (comprehension buildClippingPlane)
            else Inr []) (\<lambda>clippingPlanes.
     ebind (getOptionalFromDict vpDict ''Bitmap'' (PList [])) (\<lambda>bitmapList.
     ebind (comprehension buildBitmap bitmapList) (\<lambda>bitmaps.
     Inr \<lparr>vp_id = ident, vp_components = components, vp_oCamera = oCam, vp_pCamera = pCam,
          vp_lines = lines, vp_clippingPlanes = clippingPlanes,
          vp_bitmaps = bitmaps\<rparr>))))))))))))))"

section \<open>Topic, comments, header and viewpoint references\<close>

text \<open>
  The classes of \<^verbatim>\<open>rdwr/topic.py\<close> and \<^verbatim>\<open>rdwr/markup.py\<close> are not part of the sources at
  hand either; each is the record of what the reader passes to its constructor.
\<close>

record BimSnippet =
  bs_snippetType :: pyval
  bs_isExternal :: pyval
  bs_reference :: Uri
  bs_referenceSchema :: Uri

record 'u DocumentReference =
  dr_id :: "'u wrapped"
  dr_external :: pyval
  dr_reference :: "Uri wrapped"
  dr_description :: pyval

record ('u, 'd) Topic =
  tp_id :: 'u
  tp_title :: pyval
  tp_date :: 'd
  tp_author :: pyval
  tp_type :: pyval
  tp_status :: pyval
  tp_referenceLinks :: pyval
  tp_docRefs :: "'u DocumentReference list"
  tp_priority :: pyval
  tp_index :: pyval
  tp_labels :: pyval
  tp_modifiedDate :: "'d option"
  tp_modifiedAuthor :: pyval
  tp_dueDate :: "'d option"
  tp_assignee :: pyval
  tp_description :: pyval
  tp_stage :: pyval
  tp_relatedTopics :: "'u list"
  tp_bimSnippet :: "BimSnippet option"

record 'd HeaderFile =
  hf_ifcProjectId :: pyval
  hf_ifcSpatialStructureElement :: pyval
  hf_isExternal :: pyval
  hf_filename :: pyval
  hf_date :: "'d wrapped"
  hf_reference :: "Uri wrapped"

record 'd Header =
  hd_files :: "'d HeaderFile list"

text \<open>
  Modelled from the spec: the class \<^verbatim>\<open>ViewpointReference\<close> is missing. The spec gives a
  viewpoint reference an identifier, an optional file locator, an optional snapshot locator,
  an ordering index with \<open>-1\<close> for "unspecified", and a viewpoint that is attached later and
  absent until then. The reader reads the identifier back as \<^verbatim>\<open>xmlId\<close> and the locator as
  \<^verbatim>\<open>file\<close>, and it constructs one reference from an identifier alone.
\<close>

record 'u ViewpointReference =
  vr_xmlId :: 'u
  vr_file :: "Uri wrapped"
  vr_snapshot :: "Uri wrapped"
  vr_index :: pyval
  vr_viewpoint :: "'u Viewpoint option"

definition ViewpointReference_init ::
  "'u \<Rightarrow> Uri wrapped \<Rightarrow> Uri wrapped \<Rightarrow> pyval \<Rightarrow> 'u ViewpointReference" where
  "ViewpointReference_init ident file snapshot index =
     \<lparr>vr_xmlId = ident, vr_file = file, vr_snapshot = snapshot, vr_index = index,
      vr_viewpoint = None\<rparr>"

text \<open>
  The viewpoint references of a markup are objects that are shared and updated in place:
  a comment points to one of them, and the reader later attaches the viewpoint to the
  same object. The list \<open>mk_viewpoints\<close> of the markup is the store of these objects, and a
  reference to one of them is its position in that list (\<open>Linked i\<close>). Before the
  references of a markup are resolved a comment holds an object of its own, made from the
  identifier alone (\<open>Fresh r\<close>), or the decoded value that counted as false (\<open>NotBuilt v\<close>;
  \<open>NotBuilt PNone\<close> is \<^verbatim>\<open>None\<close>).
\<close>

datatype 'u comment_viewpoint =
    NotBuilt pyval
  | Fresh "'u ViewpointReference"
  | Linked nat

record ('u, 'd) Comment =
  cm_id :: 'u
  cm_date :: 'd
  cm_author :: pyval
  cm_comment :: pyval
  cm_viewpoint :: "'u comment_viewpoint"
  cm_modifiedDate :: "'d option"
  cm_modifiedAuthor :: pyval

record ('u, 'd) Markup =
  mk_topic :: "('u, 'd) Topic"
  mk_header :: "'d Header option"
  mk_comments :: "('u, 'd) Comment list"
  mk_viewpoints :: "'u ViewpointReference list"
  mk_containingObject :: "'u option"

text \<open>\<^verbatim>\<open>x = getOptionalFromDict(d, k, None); if x is not None: x = parse(x)\<close>\<close>

definition parse_unless_None :: "('u, 'd) env \<Rightarrow> pyval \<Rightarrow> pyerr + 'd option" where
  "parse_unless_None env x =
     (if x \<noteq> PNone then ebind (dateutil_parse env x) (\<lambda>d. Inr (Some d)) else Inr None)"

definition buildComment :: "('u, 'd) env \<Rightarrow> pyval \<Rightarrow> pyerr + ('u, 'd) Comment" where
  "buildComment env commentDict =
     ebind (ebind (py_getitem commentDict ''@Guid'') (UUID env)) (\<lambda>ident.
     ebind (ebind (py_getitem commentDict ''Date'') (dateutil_parse env)) (\<lambda>commentDate.
     ebind (py_getitem commentDict ''Author'') (\<lambda>commentAuthor.
     ebind (getOptionalFromDict commentDict ''ModifiedAuthor'' (PStr '''')) (\<lambda>modifiedAuthor.
     ebind (ebind (getOptionalFromDict commentDict ''ModifiedDate'' PNone)
              (parse_unless_None env)) (\<lambda>modifiedDate.
     ebind (py_getitem commentDict ''Comment'') (\<lambda>commentString.
     ebind (getOptionalFromDict commentDict ''Viewpoint'' PNone) (\<lambda>viewpointRef.
     ebind (if truthy viewpointRef
            then ebind (ebind (py_getitem viewpointRef ''@Guid'') (UUID env)) (\<lambda>g.
                   Inr (Fresh (ViewpointReference_init g (Undecoded PNone) (Undecoded PNone)
                                 (PInt (- 1)))))
            else Inr (NotBuilt viewpointRef)) (\<lambda>viewpointRef.
     Inr \<lparr>cm_id = ident, cm_date = commentDate, cm_author = commentAuthor,
          cm_comment = commentString, cm_viewpoint = viewpointRef,
          cm_modifiedDate = modifiedDate, cm_modifiedAuthor = modifiedAuthor\<rparr>))))))))"

definition buildBimSnippet :: "pyval \<Rightarrow> pyerr + BimSnippet" where
  "buildBimSnippet snippetDict =
     ebind (ebind (py_getitem snippetDict ''Reference'') Uri_init) (\<lambda>reference.
     ebind (ebind (py_getitem snippetDict ''ReferenceSchema'') Uri_init) (\<lambda>referenceSchema.
     ebind (py_getitem snippetDict ''@SnippetType'') (\<lambda>snippetType.
     ebind (getOptionalFromDict snippetDict ''@isExternal'' (PBool False)) (\<lambda>isExternal.
     Inr \<lparr>bs_snippetType = snippetType, bs_isExternal = isExternal,
          bs_reference = reference, bs_referenceSchema = referenceSchema\<rparr>))))"

definition buildDocRef :: "('u, 'd) env \<Rightarrow> pyval \<Rightarrow> pyerr + 'u DocumentReference" where
  "buildDocRef env docDict =
     ebind (ebind (getOptionalFromDict docDict ''ReferencedDocument'' PNone)
              (wrap_if_true Uri_init)) (\<lambda>docUri.
     ebind (getOptionalFromDict docDict ''Description'' PNone) (\<lambda>docName.
     ebind (ebind (getOptionalFromDict docDict ''@Guid'' PNone)
              (wrap_if_true (UUID env))) (\<lambda>docId.
     ebind (getOptionalFromDict docDict ''@isExternal'' (PBool False)) (\<lambda>docExternal.
     Inr \<lparr>dr_id = docId, dr_external = docExternal, dr_reference = docUri,
          dr_description = docName\<rparr>))))"

definition relatedTopic_guid :: "('u, 'd) env \<Rightarrow> pyval \<Rightarrow> pyerr + 'u" where
  "relatedTopic_guid env relTopic = ebind (py_getitem relTopic ''@Guid'') (UUID env)"

definition buildTopic :: "('u, 'd) env \<Rightarrow> pyval \<Rightarrow> pyerr + ('u, 'd) Topic" where
  "buildTopic env topicDict =
     ebind (ebind (py_getitem topicDict ''@Guid'') (UUID env)) (\<lambda>ident.
     ebind (py_getitem topicDict ''Title'') (\<lambda>title.
     ebind (ebind (py_getitem topicDict ''CreationDate'') (dateutil_parse env)) (\<lambda>topicDate.
     ebind (py_getitem topicDict ''CreationAuthor'') (\<lambda>topicAuthor.
     ebind (getOptionalFromDict topicDict ''@TopicStatus'' (PStr '''')) (\<lambda>topicStatus.
     ebind (getOptionalFromDict topicDict ''@TopicType'' (PStr '''')) (\<lambda>topicType.
     ebind (getOptionalFromDict topicDict ''Priority'' (PStr '''')) (\<lambda>topicPriority.
     ebind (ebind (getOptionalFromDict topicDict ''ModifiedDate'' PNone)
              (parse_unless_None env)) (\<lambda>modifiedDate.
     ebind (getOptionalFromDict topicDict ''ModifiedAuthor'' (PStr '''')) (\<lambda>modifiedAuthor.
     ebind (getOptionalFromDict topicDict ''Index'' (PInt (- 1))) (\<lambda>index.
     ebind (ebind (getOptionalFromDict topicDict ''DueDate'' PNone)
              (parse_unless_None env)) (\<lambda>dueDate.
     ebind (getOptionalFromDict topicDict ''AssignedTo'' (PStr '''')) (\<lambda>assignee.
     ebind (getOptionalFromDict topicDict ''Stage'' (PStr '''')) (\<lambda>stage.
     ebind (getOptionalFromDict topicDict ''Description'' (PStr '''')) (\<lambda>description.
     ebind (py_in ''BimSnippet'' topicDict) (\<lambda>hasSnippet.
     ebind (if hasSnippet
            then ebind (ebind (py_getitem topicDict ''BimSnippet'') buildBimSnippet)
                   (\<lambda>b. Inr (Some b))
            else Inr None) (\<lambda>bimSnippet.
     ebind (getOptionalFromDict topicDict ''Labels'' (PList [])) (\<lambda>labelList.
     ebind (getOptionalFromDict topicDict ''DocumentReference'' (PList [])) (\<lambda>docRefList.
     ebind (comprehension (buildDocRef env) docRefList) (\<lambda>docRefs.
     ebind (getOptionalFromDict topicDict ''RelatedTopic'' (PList [])) (\<lambda>relatedList.
     ebind (comprehension (relatedTopic_guid env) relatedList) (\<lambda>relatedTopics.
     ebind (getOptionalFromDict topicDict ''ReferenceLink'' (PList [])) (\<lambda>referenceLinks.
     Inr \<lparr>tp_id = ident, tp_title = title, tp_date = topicDate, tp_author = topicAuthor,
          tp_type = topicType, tp_status = topicStatus, tp_referenceLinks = referenceLinks,
          tp_docRefs = docRefs, tp_priority = topicPriority, tp_index = index,
          tp_labels = labelList, tp_modifiedDate = modifiedDate,
          tp_modifiedAuthor = modifiedAuthor, tp_dueDate = dueDate, tp_assignee = assignee,
          tp_description = description, tp_stage = stage, tp_relatedTopics = relatedTopics,
          tp_bimSnippet = bimSnippet\<rparr>))))))))))))))))))))))"

definition buildFile :: "('u, 'd) env \<Rightarrow> pyval \<Rightarrow> pyerr + 'd HeaderFile" where
  "buildFile env fileDict =
     ebind (getOptionalFromDict fileDict ''Filename'' (PStr '''')) (\<lambda>filename.
     ebind (ebind (getOptionalFromDict fileDict ''Date'' PNone)
              (wrap_if_true (dateutil_parse env))) (\<lambda>filedate.
     ebind (ebind (getOptionalFromDict fileDict ''Reference'' (PStr ''''))
              (wrap_if_true Uri_init)) (\<lambda>reference.
     ebind (getOptionalFromDict fileDict ''@IfcProject'' (PStr '''')) (\<lambda>ifcProjectId.
     ebind (getOptionalFromDict fileDict ''@IfcSpatialStructureElement'' (PStr ''''))
       (\<lambda>ifcSpatialStructureElement.
     ebind (getOptionalFromDict fileDict ''@isExternal'' (PBool True)) (\<lambda>isExternal.
     Inr \<lparr>hf_ifcProjectId = ifcProjectId,
          hf_ifcSpatialStructureElement = ifcSpatialStructureElement,
          hf_isExternal = isExternal, hf_filename = filename, hf_date = filedate,
          hf_reference = reference\<rparr>))))))"

definition buildHeader :: "('u, 'd) env \<Rightarrow> pyval \<Rightarrow> pyerr + 'd Header" where
  "buildHeader env headerDict =
     ebind (getOptionalFromDict headerDict ''File'' (PList [])) (\<lambda>filelist.
     ebind (py_iter filelist) (\<lambda>fs.
     ebind (emap (buildFile env) (filter (\<lambda>f. f \<noteq> PNone) fs)) (\<lambda>files.
     Inr \<lparr>hd_files = files\<rparr>)))"

definition buildViewpointReference ::
  "('u, 'd) env \<Rightarrow> pyval \<Rightarrow> pyerr + 'u ViewpointReference" where
  "buildViewpointReference env viewpointDict =
     ebind (ebind (py_getitem viewpointDict ''@Guid'') (UUID env)) (\<lambda>ident.
     ebind (ebind (getOptionalFromDict viewpointDict ''Viewpoint'' PNone)
              (wrap_if_true Uri_init)) (\<lambda>viewpointFile.
     ebind (ebind (getOptionalFromDict viewpointDict ''Snapshot'' PNone)
              (wrap_if_true Uri_init)) (\<lambda>snapshotFile.
     ebind (getOptionalFromDict viewpointDict ''Index'' (PInt (- 1))) (\<lambda>index.
     Inr (ViewpointReference_init ident viewpointFile snapshotFile index)))))"

text \<open>
  Modelled from the spec: the method \<^verbatim>\<open>Markup.getViewpointRefByGuid\<close> is missing. The spec
  has the identifier "looked up against the just-built viewpoint-reference list by
  identifier equality; found \<rightarrow> live reference substituted; not found \<rightarrow> reference cleared to
  absent". The result is the reference (position) of the first object of the list with
  that identifier, or nothing.
\<close>

fun first_index :: "('a \<Rightarrow> bool) \<Rightarrow> 'a list \<Rightarrow> nat option" where
  "first_index P [] = None"
| "first_index P (x # xs) = (if P x then Some 0 else map_option Suc (first_index P xs))"

definition getViewpointRefByGuid :: "('u, 'd) Markup \<Rightarrow> 'u \<Rightarrow> nat option" where
  "getViewpointRefByGuid markup guid =
     first_index (\<lambda>vpRef. vr_xmlId vpRef = guid) (mk_viewpoints markup)"

text \<open>
  The last loop of \<^verbatim>\<open>buildMarkup\<close> (line 384), for one comment. \<^verbatim>\<open>if comment.viewpoint:\<close>
  holds for a viewpoint reference (an object counts as true) and for an undecoded value
  that counts as true; such a value has no \<^verbatim>\<open>xmlId\<close>. \<open>link_viewpoint\<close> is the body of the
  \<^verbatim>\<open>if\<close> once the identifier is read. A reference \<open>Linked i\<close> always points into the list.
\<close>

definition link_viewpoint ::
  "('u, 'd) Markup \<Rightarrow> ('u, 'd) Comment \<Rightarrow> 'u \<Rightarrow> ('u, 'd) Comment" where
  "link_viewpoint markup comment cViewpointRefGuid =
     (let viewpointRef = getViewpointRefByGuid markup cViewpointRefGuid
      in comment\<lparr>cm_viewpoint :=
           (case viewpointRef of None \<Rightarrow> NotBuilt PNone | Some i \<Rightarrow> Linked i)\<rparr>)"

definition resolve_viewpoint ::
  "('u, 'd) Markup \<Rightarrow> ('u, 'd) Comment \<Rightarrow> pyerr + ('u, 'd) Comment" where
  "resolve_viewpoint markup comment =
     (case cm_viewpoint comment of
        NotBuilt v \<Rightarrow> if truthy v then Inl AttributeError else Inr comment
      | Fresh r \<Rightarrow> Inr (link_viewpoint markup comment (vr_xmlId r))
      | Linked i \<Rightarrow>
          if i < length (mk_viewpoints markup)
          then Inr (link_viewpoint markup comment (vr_xmlId (mk_viewpoints markup ! i)))
          else Inr comment)"

definition buildMarkup ::
  "('u, 'd) env \<Rightarrow> string \<Rightarrow> string \<Rightarrow> pyerr + ('u, 'd) Markup" where
  "buildMarkup env markupFilePath markupSchemaPath =
     ebind (to_dict_lax env markupSchemaPath markupFilePath) (\<lambda>markupDict.
     ebind (getOptionalFromDict markupDict ''Comment'' (PList [])) (\<lambda>commentList.
     ebind (comprehension (buildComment env) commentList) (\<lambda>comments.
     ebind (py_getitem markupDict ''Topic'') (\<lambda>topicDict.
     ebind (buildTopic env topicDict) (\<lambda>topic.
     ebind (getOptionalFromDict markupDict ''Header'' PNone) (\<lambda>headerDict.
     ebind (if truthy headerDict
            then ebind (py_len headerDict) (\<lambda>n.
                   if n > 0 then ebind (buildHeader env headerDict) (\<lambda>h. Inr (Some h))
                   else Inr None)
            else Inr None) (\<lambda>header.
     ebind (getOptionalFromDict markupDict ''Viewpoints'' (PList [])) (\<lambda>viewpointList.
     ebind (comprehension (buildViewpointReference env) viewpointList) (\<lambda>viewpoints.
     (let markup = \<lparr>mk_topic = topic, mk_header = header, mk_comments = comments,
                     mk_viewpoints = viewpoints, mk_containingObject = None\<rparr>
      in ebind (emap (resolve_viewpoint markup) comments) (\<lambda>resolved.
         Inr (markup\<lparr>mk_comments := resolved\<rparr>))))))))))))"

section \<open>The project and its value wrappers (\<^verbatim>\<open>bcf/project.py\<close>)\<close>

text \<open>
  Modelled from the spec: the interface \<^verbatim>\<open>State\<close> (\<^verbatim>\<open>interfaces/state.py\<close>) is missing. The
  spec gives every node "a mutation-state tag drawn from {Original, Added, Modified,
  Deleted}"; \<^verbatim>\<open>isOriginal\<close> tests the tag against the first of them.
\<close>

datatype States = ORIGINAL | ADDED | DELETED | MODIFIED

definition isOriginal :: "States \<Rightarrow> bool" where
  "isOriginal st = (st = ORIGINAL)"

text \<open>
  \<open>'v\<close> is the type of the wrapped values and \<open>'o\<close> the type of references to the containing
  object (\<^verbatim>\<open>None\<close> included).
\<close>

record ('v, 'o) SimpleElement =
  se_value :: 'v
  se_xmlName :: string
  se_containingObject :: 'o
  se_state :: States

definition SimpleElement_init ::
  "'v \<Rightarrow> string \<Rightarrow> 'o \<Rightarrow> States \<Rightarrow> ('v, 'o) SimpleElement" where
  "SimpleElement_init v xmlName containingElement st =
     \<lparr>se_value = v, se_xmlName = xmlName, se_containingObject = containingElement,
      se_state = st\<rparr>"

record ('v, 'o) SimpleList =
  sl_items :: "('v, 'o) SimpleElement list"
  sl_xmlName :: string
  sl_containingObject :: 'o
  sl_state :: States

definition SimpleList_init ::
  "'v list \<Rightarrow> string \<Rightarrow> 'o \<Rightarrow> States \<Rightarrow> ('v, 'o) SimpleList" where
  "SimpleList_init data xmlName containingElement st =
     \<lparr>sl_items = map (\<lambda>item. SimpleElement_init item xmlName containingElement st) data,
      sl_xmlName = xmlName, sl_containingObject = containingElement, sl_state = st\<rparr>"



text \<open>
  A project is referred to by its identifier: the containing object of its two value
  wrappers is \<open>Some\<close> of it, that of the project itself is \<^verbatim>\<open>None\<close>. \<open>'m\<close> is the type of the
  members of the topic list.
\<close>

record ('u, 'm) Project =
  pr_containingObject :: "'u option"
  pr_state :: States
  pr_id :: 'u
  pr_name :: "(pyval, 'u option) SimpleElement"
  pr_extSchemaSrc :: "(pyval, 'u option) SimpleElement"
  pr_topicList :: "'m list"

definition Project_init :: "'u \<Rightarrow> pyval \<Rightarrow> pyval \<Rightarrow> States \<Rightarrow> ('u, 'm) Project" where
  "Project_init uuid name extSchemaSrc st =
     \<lparr>pr_containingObject = None, pr_state = st, pr_id = uuid,
      pr_name = SimpleElement_init name ''Name'' (Some uuid) ORIGINAL,
      pr_extSchemaSrc = SimpleElement_init extSchemaSrc ''ExtensionSchema'' (Some uuid) ORIGINAL,
      pr_topicList = []\<rparr>"

text \<open>
  \<^verbatim>\<open>Project.getStateList\<close> (line 204). An entry of the list pairs a tag with the object that
  carries it: the project itself, or some object below it. What the value wrappers and the
  members of the topic list report for themselves is defined outside the sources at hand
  (\<^verbatim>\<open>State.getStateList\<close>, \<^verbatim>\<open>Markup.getStateList\<close>) and is a parameter here.
\<close>

datatype ('u, 'm, 'x) node = ProjectNode "('u, 'm) Project" | Descendant 'x

definition Project_getStateList ::
  "((pyval, 'u option) SimpleElement \<Rightarrow> (States \<times> ('u, 'm, 'x) node) list) \<Rightarrow>
   ('m \<Rightarrow> (States \<times> ('u, 'm, 'x) node) list) \<Rightarrow>
   ('u, 'm) Project \<Rightarrow> (States \<times> ('u, 'm, 'x) node) list" where
  "Project_getStateList element_getStateList markup_getStateList self =
     (let stateList = [];
          stateList = (if \<not> isOriginal (pr_state self)
                       then stateList @ [(pr_state self, ProjectNode self)]
                       else stateList);
          stateList = stateList @ element_getStateList (pr_name self);
          stateList = stateList @ element_getStateList (pr_extSchemaSrc self)
      in fold (\<lambda>markup stateList. stateList @ markup_getStateList markup)
           (pr_topicList self) stateList)"

section \<open>Files: \<^verbatim>\<open>readFile\<close>, \<^verbatim>\<open>getVersion\<close>, \<^verbatim>\<open>validateFile\<close>, \<^verbatim>\<open>buildProject\<close>\<close>

text \<open>Paths are POSIX paths: \<^verbatim>\<open>os.path.join\<close> and \<^verbatim>\<open>os.path.basename\<close> of two strings.\<close>

definition os_path_join :: "string \<Rightarrow> string \<Rightarrow> string" where
  "os_path_join a b =
     (if startswith b ''/'' then b
      else if a = [] \<or> last a = CHR ''/'' then a @ b
      else a @ ''/'' @ b)"

definition os_path_basename :: "string \<Rightarrow> string" where
  "os_path_basename p = rev (takeWhile (\<lambda>c. c \<noteq> CHR ''/'') (rev p))"

text \<open>
  \<^verbatim>\<open>os.path.exists\<close> is \<^verbatim>\<open>os.stat\<close> with \<^verbatim>\<open>OSError\<close> and \<^verbatim>\<open>ValueError\<close> turned into
  \<^verbatim>\<open>False\<close>. Its argument in \<^verbatim>\<open>readFile\<close> is the builtin class \<^verbatim>\<open>str\<close>, not a string:
  \<^verbatim>\<open>os.stat\<close> refuses such an argument with \<^verbatim>\<open>TypeError\<close>, which \<^verbatim>\<open>os.path.exists\<close> lets
  through.
\<close>

datatype path_argument = PathString string | BuiltinStrClass

fun os_path_exists :: "('u, 'd) env \<Rightarrow> path_argument \<Rightarrow> pyerr + bool" where
  "os_path_exists env (PathString p) = Inr (path_exists env p)"
| "os_path_exists env BuiltinStrClass = Inl TypeError"

text \<open>
  \<^verbatim>\<open>readFile\<close> (line 34). The parameter \<^verbatim>\<open>path\<close> is used by \<^verbatim>\<open>ZipFile(path)\<close> only; the check
  before it reads \<^verbatim>\<open>os.path.exists(str)\<close>. \<^verbatim>\<open>except Exception\<close> catches every error value of
  this theory; the message it prints is not part of the result.
\<close>

definition readFile :: "('u, 'd) env \<Rightarrow> string \<Rightarrow> pyerr + zipfile option" where
  "readFile env path =
     ebind (os_path_exists env BuiltinStrClass) (\<lambda>found.
     if \<not> found then Inl ValueError
     else (case ZipFile env path of
             Inl e \<Rightarrow> Inr None
           | Inr file \<Rightarrow> Inr (Some file)))"

definition extractFileToTmp :: "('u, 'd) env \<Rightarrow> string \<Rightarrow> pyerr + string" where
  "extractFileToTmp env zipFilePath =
     ebind (ZipFile env zipFilePath) (\<lambda>zipFile.
     (let tmpDir = getSystemTmp env;
          extractionPath = os_path_join tmpDir (os_path_basename zipFilePath)
      in ebind (extractall env zipFile extractionPath) (\<lambda>u. Inr extractionPath)))"

definition getVersion :: "('u, 'd) env \<Rightarrow> string \<Rightarrow> string \<Rightarrow> pyerr + pyval" where
  "getVersion env extrBcfPath versionSchemaPath =
     (let versionFileName = ''bcf.version'';
          versionFilePath = os_path_join extrBcfPath versionFileName
      in if \<not> path_exists env versionFilePath then Inl ValueError
         else ebind (validate env versionSchemaPath versionFilePath) (\<lambda>outcome.
              if outcome \<noteq> None then Inr PNone
              else ebind (to_dict_strict env versionSchemaPath versionFilePath) (\<lambda>versionDict.
                   py_getitem versionDict ''@VersionId'')))"

definition SUPPORTED_VERSIONS :: "pyval list" where
  "SUPPORTED_VERSIONS = [PStr ''2.1'']"

text \<open>
  \<^verbatim>\<open>validateFile\<close> (line 589): the empty string when the file validates, a message built
  from the paths and the text of the exception otherwise.
\<close>

definition validateFile :: "('u, 'd) env \<Rightarrow> string \<Rightarrow> string \<Rightarrow> string \<Rightarrow> pyerr + string" where
  "validateFile env validateFilePath schemaPath bcfFile =
     ebind (validate env schemaPath validateFilePath) (\<lambda>outcome.
     case outcome of
       None \<Rightarrow> Inr ''''
     | Some e \<Rightarrow>
         (let parentDir = abspath env (os_path_join validateFilePath ''..'')
          in Inr (validateFilePath @ '' file inside '' @ parentDir @ '' of '' @ bcfFile
                  @ '' could not be validated against '' @ os_path_basename schemaPath
                  @ [CHR 0x0A] @ ''Error:'' @ e)))"

text \<open>
  \<^verbatim>\<open>buildProject\<close> (line 170). Either path may be \<^verbatim>\<open>None\<close>; the result is \<^verbatim>\<open>None\<close> when a
  path is missing or names no file.
\<close>

definition buildProject ::
  "('u, 'd) env \<Rightarrow> string option \<Rightarrow> string option \<Rightarrow> pyerr + ('u, 'm) Project option" where
  "buildProject env projectFilePath projectSchema =
     (case (projectFilePath, projectSchema) of
        (Some file, Some schema) \<Rightarrow>
          if \<not> path_exists env file then Inr None
          else if \<not> path_exists env schema then Inr None
          else
            ebind (to_dict_lax env schema file) (\<lambda>projectDict.
            ebind (py_getitem projectDict ''Project'') (\<lambda>project.
            ebind (ebind (py_getitem project ''@ProjectId'') (UUID env)) (\<lambda>pId.
            ebind (py_in ''Name'' project) (\<lambda>hasName.
            ebind (if hasName then py_getitem project ''Name'' else Inr (PStr ''''))
              (\<lambda>pName.
            ebind (py_in ''ExtensionSchema'' projectDict) (\<lambda>hasExtension.
            ebind (if hasExtension then py_getitem projectDict ''ExtensionSchema''
                   else Inr (PStr '''')) (\<lambda>pExtensionSchema.
            Inr (Some (Project_init pId pName pExtensionSchema ORIGINAL)))))))))
      | _ \<Rightarrow> Inr None)"

section \<open>\<^verbatim>\<open>readBcfFile\<close> (line 613)\<close>

text \<open>
  What \<^verbatim>\<open>util.printErr\<close> is called with, in the order of the calls; \<^verbatim>\<open>debug\<close> output is left
  out. Each notice keeps the values its message is formatted from: for a skipped viewpoint
  the missing key (the text of the \<^verbatim>\<open>KeyError\<close>), the name of the topic directory and the
  \<^verbatim>\<open>file\<close> of the viewpoint reference.
\<close>

datatype notice =
    SchemasMissing
  | NoVersionFile
  | MarkupNotCompliant string "pyval list" string
  | ViewpointSkipped string string "Uri wrapped"

text \<open>
  The reader imports \<^verbatim>\<open>pprint\<close> only under \<^verbatim>\<open>if DEBUG:\<close>, and calls
  \<^verbatim>\<open>pprint.pprint(msg, file=sys.stderr)\<close>. Without the import the name is unbound; with it,
  \<^verbatim>\<open>pprint.pprint\<close> has no parameter \<^verbatim>\<open>file\<close>.
\<close>

definition pprint_file_keyword :: "('u, 'd) env \<Rightarrow> pyerr" where
  "pprint_file_keyword env = (if DEBUG env then TypeError else NameError)"

text \<open>\<^verbatim>\<open>os.path.join(topicDir, vpRef.file.uri)\<close>, evaluated before the \<^verbatim>\<open>try\<close>.\<close>

definition viewpoint_path :: "string \<Rightarrow> 'u ViewpointReference \<Rightarrow> pyerr + string" where
  "viewpoint_path topicDir vpRef =
     (case vr_file vpRef of
        Undecoded v \<Rightarrow> Inl AttributeError
      | Built u \<Rightarrow> (case uri u of PStr s \<Rightarrow> Inr (os_path_join topicDir s) | _ \<Rightarrow> Inl TypeError))"

text \<open>
  The loop over \<^verbatim>\<open>markup.viewpoints\<close> (line 692). It updates the objects of the list in
  place; the result is the list after the loop, or the exception that left it, together
  with the notices printed so far.
\<close>

fun attachViewpoints ::
  "('u, 'd) env \<Rightarrow> string \<Rightarrow> string \<Rightarrow> string \<Rightarrow> 'u ViewpointReference list \<Rightarrow> notice list \<Rightarrow>
   notice list \<times> (pyerr + 'u ViewpointReference list)" where
  "attachViewpoints env topicDir topic visinfoSchemaPath [] printed = (printed, Inr [])"
| "attachViewpoints env topicDir topic visinfoSchemaPath (vpRef # rest) printed =
     (case viewpoint_path topicDir vpRef of
        Inl e \<Rightarrow> (printed, Inl e)
      | Inr vpPath \<Rightarrow>
          (case buildViewpoint env vpPath visinfoSchemaPath of
             Inl (KeyError k) \<Rightarrow>
               (case attachViewpoints env topicDir topic visinfoSchemaPath rest
                       (printed @ [ViewpointSkipped k topic (vr_file vpRef)]) of
                  (printed', r) \<Rightarrow> (printed', ebind r (\<lambda>vs. Inr (vpRef # vs))))
           | Inl e \<Rightarrow> (printed, Inl e)
           | Inr vp \<Rightarrow>
               (case attachViewpoints env topicDir topic visinfoSchemaPath rest printed of
                  (printed', r) \<Rightarrow>
                    (printed', ebind r (\<lambda>vs. Inr (vpRef\<lparr>vr_viewpoint := Some vp\<rparr> # vs))))))"

text \<open>
  The loop over the topic directories (line 675). \<open>proj\<close> is \<^verbatim>\<open>None\<close> when \<^verbatim>\<open>buildProject\<close>
  returned \<^verbatim>\<open>None\<close>; \<^verbatim>\<open>proj.topicList\<close> then raises.
\<close>

fun readTopics ::
  "('u, 'd) env \<Rightarrow> string \<Rightarrow> string \<Rightarrow> string \<Rightarrow> string \<Rightarrow> string list \<Rightarrow>
   ('u, ('u, 'd) Markup) Project option \<Rightarrow> notice list \<Rightarrow>
   notice list \<times> (pyerr + ('u, ('u, 'd) Markup) Project option)" where
  "readTopics env bcfFile bcfExtractedPath markupSchemaPath visinfoSchemaPath [] proj printed =
     (printed, Inr proj)"
| "readTopics env bcfFile bcfExtractedPath markupSchemaPath visinfoSchemaPath (topic # rest)
     proj printed =
     (let topicDir = os_path_join bcfExtractedPath topic;
          markupFilePath = os_path_join topicDir ''markup.bcf''
      in case validateFile env markupFilePath markupSchemaPath bcfFile of
           Inl e \<Rightarrow> (printed, Inl e)
         | Inr error \<Rightarrow>
             (let printed1 =
                    (if error \<noteq> ''''
                     then printed @ [MarkupNotCompliant markupFilePath SUPPORTED_VERSIONS error]
                     else printed)
              in case buildMarkup env markupFilePath markupSchemaPath of
                   Inl e \<Rightarrow> (printed1, Inl e)
                 | Inr markup \<Rightarrow>
                     (case attachViewpoints env topicDir topic visinfoSchemaPath
                             (mk_viewpoints markup) printed1 of
                        (printed2, Inl e) \<Rightarrow> (printed2, Inl e)
                      | (printed2, Inr viewpoints) \<Rightarrow>
                          (case proj of
                             None \<Rightarrow> (printed2, Inl AttributeError)
                           | Some p \<Rightarrow>
                               readTopics env bcfFile bcfExtractedPath markupSchemaPath
                                 visinfoSchemaPath rest
                                 (Some (p\<lparr>pr_topicList := pr_topicList p @
                                    [markup\<lparr>mk_viewpoints := viewpoints,
                                            mk_containingObject := Some (pr_id p)\<rparr>]\<rparr>))
                                 printed2))))"

text \<open>
  The part of \<^verbatim>\<open>readBcfFile\<close> under \<^verbatim>\<open>### Validate project and build ###\<close> (line 660): the
  project with identifier zero, replaced by what \<^verbatim>\<open>buildProject\<close> returns when the archive
  has a \<^verbatim>\<open>project.bcfp\<close>. A validation error of that file is only a debug message.
\<close>

definition validate_and_build_project ::
  "('u, 'd) env \<Rightarrow> string \<Rightarrow> string \<Rightarrow> string \<Rightarrow> pyerr + ('u, 'm) Project option" where
  "validate_and_build_project env bcfFile bcfExtractedPath projectSchemaPath =
     (let proj = Some (Project_init (UUID_int env 0) (PStr '''') PNone ORIGINAL);
          projectFilePath = os_path_join bcfExtractedPath ''project.bcfp''
      in if path_exists env projectFilePath
         then ebind (validateFile env projectFilePath projectSchemaPath bcfFile)
                (\<lambda>error. buildProject env (Some projectFilePath) (Some projectSchemaPath))
         else Inr proj)"

text \<open>
  The result of \<^verbatim>\<open>readBcfFile\<close> is the list of notices together with the returned value
  (\<open>Inr None\<close> is \<^verbatim>\<open>return None\<close>, \<open>Inr (Some p)\<close> a project) or the exception that ended the
  call.
\<close>

definition readBcfFile ::
  "('u, 'd) env \<Rightarrow> string \<Rightarrow> notice list \<times> (pyerr + ('u, ('u, 'd) Markup) Project option)" where
  "readBcfFile env bcfFile =
     (let tmpDir = getSystemTmp env in
      case copySchemas env tmpDir of
        (Some projectSchemaPath, extensionsSchemaPath, Some markupSchemaPath,
         Some versionSchemaPath, Some visinfoSchemaPath) \<Rightarrow>
          (case extractFileToTmp env bcfFile of
             Inl e \<Rightarrow> ([], Inl e)
           | Inr bcfExtractedPath \<Rightarrow>
               (let versionFilePath = os_path_join bcfExtractedPath ''bcf.version'' in
                if \<not> path_exists env versionFilePath then
                  (case printErr_file_keyword env of
                     Some e \<Rightarrow> ([], Inl e)
                   | None \<Rightarrow> ([NoVersionFile], Inr None))
                else
                  (case validateFile env versionFilePath versionSchemaPath bcfFile of
                     Inl e \<Rightarrow> ([], Inl e)
                   | Inr error \<Rightarrow>
                       if error \<noteq> '''' then ([], Inl (pprint_file_keyword env))
                       else
                         (case getVersion env bcfExtractedPath versionSchemaPath of
                            Inl e \<Rightarrow> ([], Inl e)
                          | Inr version \<Rightarrow>
                              if version \<notin> set SUPPORTED_VERSIONS
                              then ([], Inl (pprint_file_keyword env))
                              else
                                (case validate_and_build_project env bcfFile
                                        bcfExtractedPath projectSchemaPath of
                                   Inl e \<Rightarrow> ([], Inl e)
                                 | Inr proj \<Rightarrow>
                                     readTopics env bcfFile bcfExtractedPath
                                       markupSchemaPath visinfoSchemaPath
                                       (getDirectories env bcfExtractedPath) proj [])))))
      | _ \<Rightarrow> ([SchemasMissing], Inr None))"

section \<open>An archive to run the reader on\<close>

text \<open>
  A concrete environment for evaluating the definitions: identifiers and timestamps are
  the decoded strings themselves, every file validates, and the extracted archive is given
  by the record trees of its files and the names of its topic directories.
\<close>

definition demo_env :: "(string \<Rightarrow> pyval option) \<Rightarrow> string list \<Rightarrow> (string, string) env" where
  "demo_env files dirs =
     \<lparr>UUID = (\<lambda>v. case v of PStr s \<Rightarrow> Inr s | _ \<Rightarrow> Inl TypeError),
      UUID_int = (\<lambda>n. if n = 0 then ''00000000-0000-0000-0000-000000000000'' else ''other''),
      dateutil_parse = (\<lambda>v. case v of PStr s \<Rightarrow> Inr s | _ \<Rightarrow> Inl TypeError),
      to_dict_lax = (\<lambda>schema file. case files file of Some v \<Rightarrow> Inr v | None \<Rightarrow> Inl LibraryError),
      to_dict_strict =
        (\<lambda>schema file. case files file of Some v \<Rightarrow> Inr v | None \<Rightarrow> Inl LibraryError),
      validate = (\<lambda>schema file. Inr None),
      path_exists = (\<lambda>p. files p \<noteq> None),
      abspath = (\<lambda>p. p),
      ZipFile = (\<lambda>p. Inr \<lparr>zf_filename = p\<rparr>),
      extractall = (\<lambda>z p. Inr ()),
      getSystemTmp = ''/tmp'',
      copySchemas = (\<lambda>d. (Some ''/tmp/project.xsd'', Some ''/tmp/extensions.xsd'',
                           Some ''/tmp/markup.xsd'', Some ''/tmp/version.xsd'',
                           Some ''/tmp/visinfo.xsd'')),
      getDirectories = (\<lambda>p. dirs),
      printErr_file_keyword = None,
      DEBUG = False\<rparr>"

definition demo_point :: pyval where
  "demo_point = PDict [(''X'', PInt 1), (''Y'', PInt 2), (''Z'', PInt 3)]"

definition demo_orthogonal :: pyval where
  "demo_orthogonal =
     PDict [(''CameraViewPoint'', demo_point), (''CameraDirection'', demo_point),
            (''CameraUpVector'', demo_point), (''ViewToWorldScale'', PInt 1)]"

definition demo_perspective :: pyval where
  "demo_perspective =
     PDict [(''CameraViewPoint'', demo_point), (''CameraDirection'', demo_point),
            (''CameraUpVector'', demo_point), (''FieldOfView'', PInt 60)]"

text \<open>A viewpoint file with both camera nodes, and one whose camera lacks a mandatory field.\<close>

definition demo_viewpoint_two_cameras :: pyval where
  "demo_viewpoint_two_cameras =
     PDict [(''@Guid'', PStr ''v1''), (''OrthogonalCamera'', demo_orthogonal),
            (''PerspectiveCamera'', demo_perspective)]"

definition demo_viewpoint_incomplete :: pyval where
  "demo_viewpoint_incomplete =
     PDict [(''@Guid'', PStr ''v2''),
            (''PerspectiveCamera'', PDict [(''CameraViewPoint'', demo_point)])]"

definition demo_topic :: "string \<Rightarrow> pyval" where
  "demo_topic g =
     PDict [(''@Guid'', PStr g), (''Title'', PStr ''A title''),
            (''CreationDate'', PStr ''2019-05-01T10:00:00''),
            (''CreationAuthor'', PStr ''a@b.c'')]"

definition demo_comment :: "string \<Rightarrow> string \<Rightarrow> pyval" where
  "demo_comment g v =
     PDict [(''@Guid'', PStr g), (''Date'', PStr ''2019-05-02T10:00:00''),
            (''Author'', PStr ''a@b.c''), (''Comment'', PStr ''A remark''),
            (''Viewpoint'', PDict [(''@Guid'', PStr v)])]"

text \<open>
  A markup with two viewpoint references (\<open>v1\<close>, \<open>v2\<close>) and two comments, one pointing to
  \<open>v2\<close> and one to an identifier that no reference of the markup has; and a markup without
  its \<open>Topic\<close> element.
\<close>

definition demo_markup :: pyval where
  "demo_markup =
     PDict [(''Topic'', demo_topic ''t1''),
            (''Comment'', PList [demo_comment ''c1'' ''v2'', demo_comment ''c2'' ''v9'']),
            (''Viewpoints'',
               PList [PDict [(''@Guid'', PStr ''v1''), (''Viewpoint'', PStr ''v1.bcfv'')],
                      PDict [(''@Guid'', PStr ''v2''), (''Viewpoint'', PStr ''v2.bcfv'')]])]"

definition demo_markup_plain :: pyval where
  "demo_markup_plain = PDict [(''Topic'', demo_topic ''t2'')]"

definition demo_markup_without_topic :: pyval where
  "demo_markup_without_topic = PDict [(''Comment'', PList [])]"

definition demo_files :: "string \<Rightarrow> pyval option" where
  "demo_files =
     [''/tmp/a.bcf/bcf.version'' \<mapsto> PDict [(''@VersionId'', PStr ''2.1'')],
      ''/tmp/a.bcf/t1/markup.bcf'' \<mapsto> demo_markup,
      ''/tmp/a.bcf/t1/v1.bcfv'' \<mapsto> demo_viewpoint_two_cameras,
      ''/tmp/a.bcf/t1/v2.bcfv'' \<mapsto> demo_viewpoint_incomplete,
      ''/tmp/a.bcf/t2/markup.bcf'' \<mapsto> demo_markup_plain]"


text \<open>\<^verbatim>\<open>key in d\<close> evaluates to \<^verbatim>\<open>False\<close>: the record \<open>d\<close> has no field \<open>k\<close>.\<close>

definition absent :: "string \<Rightarrow> pyval \<Rightarrow> bool" where
  "absent k d = (py_in k d = Inr False)"

definition demo_comment_plain :: pyval where
  "demo_comment_plain =
     PDict [(''@Guid'', PStr ''c3''), (''Date'', PStr ''2019-05-02T10:00:00''),
            (''Author'', PStr ''a@b.c''), (''Comment'', PStr ''A remark'')]"

definition demo_snippet :: pyval where
  "demo_snippet =
     PDict [(''Reference'', PStr ''snippet.xml''), (''ReferenceSchema'', PStr ''snippet.xsd''),
            (''@SnippetType'', PStr ''clash'')]"

text \<open>
  The raw viewpoint id of a comment record: the identifier under \<^verbatim>\<open>Viewpoint/@Guid\<close>, when
  the record has a \<^verbatim>\<open>Viewpoint\<close> node (as \<^verbatim>\<open>buildComment\<close> reads it).
\<close>

definition raw_viewpoint_id :: "('u, 'd) env \<Rightarrow> pyval \<Rightarrow> pyerr + 'u option" where
  "raw_viewpoint_id env commentDict =
     ebind (getOptionalFromDict commentDict ''Viewpoint'' PNone) (\<lambda>viewpointRef.
     if truthy viewpointRef
     then ebind (ebind (py_getitem viewpointRef ''@Guid'') (UUID env)) (\<lambda>g. Inr (Some g))
     else Inr None)"

text \<open>What the builders make of the demo markup before its references are resolved.\<close>

definition demo_topic_built :: "string \<Rightarrow> (string, string) Topic" where
  "demo_topic_built g =
     \<lparr>tp_id = g, tp_title = PStr ''A title'', tp_date = ''2019-05-01T10:00:00'',
      tp_author = PStr ''a@b.c'', tp_type = PStr '''', tp_status = PStr '''',
      tp_referenceLinks = PList [], tp_docRefs = [], tp_priority = PStr '''',
      tp_index = PInt (- 1), tp_labels = PList [], tp_modifiedDate = None,
      tp_modifiedAuthor = PStr '''', tp_dueDate = None, tp_assignee = PStr '''',
      tp_description = PStr '''', tp_stage = PStr '''', tp_relatedTopics = [],
      tp_bimSnippet = None\<rparr>"

definition demo_comment_built ::
  "string \<Rightarrow> string comment_viewpoint \<Rightarrow> (string, string) Comment" where
  "demo_comment_built g v =
     \<lparr>cm_id = g, cm_date = ''2019-05-02T10:00:00'', cm_author = PStr ''a@b.c'',
      cm_comment = PStr ''A remark'', cm_viewpoint = v, cm_modifiedDate = None,
      cm_modifiedAuthor = PStr ''''\<rparr>"

definition demo_reference_built ::
  "string \<Rightarrow> Uri wrapped \<Rightarrow> string Viewpoint option \<Rightarrow> string ViewpointReference" where
  "demo_reference_built g f v =
     \<lparr>vr_xmlId = g, vr_file = f, vr_snapshot = Undecoded PNone, vr_index = PInt (- 1),
      vr_viewpoint = v\<rparr>"



definition demo_markup_plain_built :: "(string, string) Markup" where
  "demo_markup_plain_built =
     \<lparr>mk_topic = demo_topic_built ''t2'', mk_header = None, mk_comments = [],
      mk_viewpoints = [], mk_containingObject = None\<rparr>"

section \<open>Basic facts\<close>


lemma ebind_Inr: "ebind (Inr x) f = f x"
  by (simp add: ebind_def)

lemma ebind_eq_Inr: "ebind m f = Inr y \<longleftrightarrow> (\<exists>x. m = Inr x \<and> f x = Inr y)"
  by (cases m) (simp_all add: ebind_def)

lemma emap_length: "emap f xs = Inr ys \<Longrightarrow> length ys = length xs"
  by (induction xs arbitrary: ys) (auto simp: ebind_eq_Inr)

lemma emap_nth: "emap f xs = Inr ys \<Longrightarrow> i < length xs \<Longrightarrow> f (xs ! i) = Inr (ys ! i)"
proof (induction xs arbitrary: ys i)
  case Nil
  then show ?case by simp
next
  case (Cons x xs)
  then obtain y ys' where y: "f x = Inr y" and ys': "emap f xs = Inr ys'" and ys: "ys = y # ys'"
    by (auto simp: ebind_eq_Inr)
  show ?case
  proof (cases i)
    case 0
    then show ?thesis by (simp add: y ys)
  next
    case (Suc j)
    with Cons.prems have "j < length xs" by simp
    from Cons.IH [OF ys' this] show ?thesis by (simp add: Suc ys)
  qed
qed

lemma emap_set: "emap f xs = Inr ys \<Longrightarrow> y \<in> set ys \<Longrightarrow> \<exists>x\<in>set xs. f x = Inr y"
proof (induction xs arbitrary: ys)
  case Nil
  then show ?case by simp
next
  case (Cons x xs)
  then obtain z zs where "f x = Inr z" "emap f xs = Inr zs" "ys = z # zs"
    by (auto simp: ebind_eq_Inr)
  with Cons show ?case by auto
qed

lemma getOptionalFromDict_dict:
  "getOptionalFromDict (PDict kvs) k dflt =
     Inr (case map_of kvs k of None \<Rightarrow> dflt | Some v \<Rightarrow> v)"
proof (cases "map_of kvs k")
  case None
  then have "k \<notin> fst ` set kvs" by (simp add: map_of_eq_None_iff)
  with None show ?thesis by (simp add: getOptionalFromDict_def ebind_def)
next
  case (Some v)
  then have "k \<in> fst ` set kvs" by (metis map_of_eq_None_iff option.distinct(1))
  with Some show ?thesis by (simp add: getOptionalFromDict_def ebind_def)
qed

lemma ebind_InrE:
  assumes "ebind m f = Inr y"
  obtains x where "m = Inr x" and "f x = Inr y"
  using assms by (auto simp: ebind_eq_Inr)

section \<open>Colouring entries\<close>

lemma buildComponentColour_constructed:
  assumes "buildComponentColour ccDict = Inr cc"
  shows "(cc \<noteq> None) =
     (\<exists>colour. getOptionalFromDict ccDict ''@Color'' PNone = Inr colour \<and> truthy colour)"
  using assms by (auto simp: buildComponentColour_def ebind_eq_Inr split: if_splits)

lemma buildComponents_colouring:
  assumes "buildComponents componentsDict = Inr cs"
  shows "\<exists>col. getOptionalFromDict componentsDict ''Coloring'' PNone = Inr col \<and>
           (if truthy col
            then \<exists>records. ebind (py_getitem col ''Color'') py_iter = Inr records \<and>
                   emap buildComponentColour records = Inr (cs_colouring cs) \<and>
                   length (cs_colouring cs) = length records
            else cs_colouring cs = [])"
proof -
  from assms obtain col colours where
    col: "getOptionalFromDict componentsDict ''Coloring'' PNone = Inr col" and
    colours: "(if truthy col
               then ebind (py_getitem col ''Color'') (comprehension buildComponentColour)
               else Inr []) = Inr colours" and
    cs: "cs_colouring cs = colours"
    unfolding buildComponents_def by (elim ebind_InrE) auto
  show ?thesis
  proof (cases "truthy col")
    case False
    with col colours cs show ?thesis by simp
  next
    case True
    with colours obtain records where
      "ebind (py_getitem col ''Color'') py_iter = Inr records"
      "emap buildComponentColour records = Inr colours"
      by (auto simp: comprehension_def ebind_eq_Inr)
    with True col cs show ?thesis by (auto dest: emap_length)
  qed
qed

text \<open>
  C7, as the code has it. A colouring entry is constructed exactly when the colour record
  carries a colour that Python counts as true (\<^verbatim>\<open>if colour:\<close>; the function returns
  \<^verbatim>\<open>None\<close> otherwise). In \<^verbatim>\<open>buildComponents\<close> a colouring section with colour records gives a
  list with one slot per record (\<^verbatim>\<open>None\<close> in the slot of a record without a colour), so a
  section holding at least one record never gives the empty list; a section that is absent
  and a section that is present but counts as false (an empty element) both give the empty
  list.
\<close>

theorem coloring_entries_constructed:
  "(buildComponentColour ccDict = Inr cc \<longrightarrow>
      (cc \<noteq> None) =
        (\<exists>colour. getOptionalFromDict ccDict ''@Color'' PNone = Inr colour \<and> truthy colour))
   \<and> (buildComponents componentsDict = Inr cs \<longrightarrow>
      (\<exists>col. getOptionalFromDict componentsDict ''Coloring'' PNone = Inr col \<and>
         (if truthy col
          then \<exists>records. ebind (py_getitem col ''Color'') py_iter = Inr records \<and>
                 emap buildComponentColour records = Inr (cs_colouring cs) \<and>
                 length (cs_colouring cs) = length records
          else cs_colouring cs = [])))"
  using buildComponentColour_constructed buildComponents_colouring by blast

theorem coloring_entries_constructed_witness:
  "buildComponentColour
     (PDict [(''@Color'', PStr ''FF00FF00''),
             (''Component'', PList [PDict [(''@IfcGuid'', PStr ''0a1b'')]])])
     = Inr (Some \<lparr>cc_colour = PStr ''FF00FF00'',
                  cc_components = [\<lparr>cp_ifcId = PStr ''0a1b'', cp_originatingSystem = PStr [],
                                     cp_authoringToolId = PStr []\<rparr>]\<rparr>)
   \<and> buildComponents
       (PDict [(''Visibility'', PDict [(''@DefaultVisibility'', PBool True)]),
               (''Coloring'', PDict [(''Color'',
                  PList [PDict [(''Component'', PList [PDict [(''@IfcGuid'', PStr ''0a1b'')]])]])])])
     = Inr \<lparr>cs_defaultVisibility = PBool True, cs_exceptions = [], cs_selection = [],
            cs_viewSetupHints = None, cs_colouring = [None]\<rparr>
   \<and> (\<exists>colour. getOptionalFromDict
         (PDict [(''@Color'', PStr ''FF00FF00''),
                 (''Component'', PList [PDict [(''@IfcGuid'', PStr ''0a1b'')]])])
         ''@Color'' PNone = Inr colour \<and> truthy colour)
   \<and> (\<exists>records. emap buildComponentColour records = Inr [None] \<and> length records = 1)"
proof -
  let ?cc = "PDict [(''@Color'', PStr ''FF00FF00''),
                    (''Component'', PList [PDict [(''@IfcGuid'', PStr ''0a1b'')]])]"
  let ?d = "PDict [(''Visibility'', PDict [(''@DefaultVisibility'', PBool True)]),
               (''Coloring'', PDict [(''Color'',
                  PList [PDict [(''Component'', PList [PDict [(''@IfcGuid'', PStr ''0a1b'')]])]])])]"
  have h1: "buildComponentColour ?cc
     = Inr (Some \<lparr>cc_colour = PStr ''FF00FF00'',
                  cc_components = [\<lparr>cp_ifcId = PStr ''0a1b'', cp_originatingSystem = PStr [],
                                     cp_authoringToolId = PStr []\<rparr>]\<rparr>)"
    by (simp add: buildComponentColour_def buildComponent_def getOptionalFromDict_def
        comprehension_def ebind_def)
  have h2: "buildComponents ?d
     = Inr \<lparr>cs_defaultVisibility = PBool True, cs_exceptions = [], cs_selection = [],
            cs_viewSetupHints = None, cs_colouring = [None]\<rparr>"
    by (simp add: buildComponents_def buildComponentColour_def getOptionalFromDict_def
        comprehension_def ebind_def)
  have c: "getOptionalFromDict ?d ''Coloring'' PNone = Inr (PDict [(''Color'',
                  PList [PDict [(''Component'', PList [PDict [(''@IfcGuid'', PStr ''0a1b'')]])]])])"
    by (simp add: getOptionalFromDict_def ebind_def)
  from coloring_entries_constructed
      [of ?cc "Some \<lparr>cc_colour = PStr ''FF00FF00'',
                  cc_components = [\<lparr>cp_ifcId = PStr ''0a1b'', cp_originatingSystem = PStr [],
                                     cp_authoringToolId = PStr []\<rparr>]\<rparr>"
          ?d "\<lparr>cs_defaultVisibility = PBool True, cs_exceptions = [], cs_selection = [],
            cs_viewSetupHints = None, cs_colouring = [None]\<rparr>"]
    h1 h2 c
  show ?thesis by auto
qed

theorem empty_coloring_like_absent:
  "buildComponents
     (PDict [(''Visibility'', PDict [(''@DefaultVisibility'', PBool True)]),
             (''Coloring'', PNone)])
     = Inr \<lparr>cs_defaultVisibility = PBool True, cs_exceptions = [], cs_selection = [],
            cs_viewSetupHints = None, cs_colouring = []\<rparr>
   \<and> buildComponents
       (PDict [(''Visibility'', PDict [(''@DefaultVisibility'', PBool True)]),
               (''Coloring'', PDict [(''Color'', PList [])])])
     = Inr \<lparr>cs_defaultVisibility = PBool True, cs_exceptions = [], cs_selection = [],
            cs_viewSetupHints = None, cs_colouring = []\<rparr>
   \<and> buildComponents (PDict [(''Visibility'', PDict [(''@DefaultVisibility'', PBool True)])])
     = Inr \<lparr>cs_defaultVisibility = PBool True, cs_exceptions = [], cs_selection = [],
            cs_viewSetupHints = None, cs_colouring = []\<rparr>"
  by (simp add: buildComponents_def getOptionalFromDict_def comprehension_def ebind_def)

section \<open>The two cameras of a viewpoint\<close>




section \<open>The state list of a project\<close>

lemma fold_append_concat:
  "fold (\<lambda>x acc. acc @ f x) xs acc0 = acc0 @ concat (map f xs)"
  by (induction xs arbitrary: acc0) simp_all

text \<open>
  C8. The list starts with the pair of the project itself exactly when its own tag is not
  \<open>ORIGINAL\<close>; after that come, whatever the project's tag is, the entries of the name
  wrapper, of the extension-schema wrapper and of every member of the topic list, in this
  order. Changing the project's own tag changes nothing but that first entry, and the pair
  of the project is in the list exactly when its tag is not \<open>ORIGINAL\<close> or an object below
  the project reports that pair itself.
\<close>

theorem project_state_list_walks_descendants:
  "Project_getStateList element_getStateList markup_getStateList self =
     (if pr_state self = ORIGINAL then [] else [(pr_state self, ProjectNode self)])
     @ element_getStateList (pr_name self)
     @ element_getStateList (pr_extSchemaSrc self)
     @ concat (map markup_getStateList (pr_topicList self))
   \<and> (\<forall>st. drop (if st = ORIGINAL then 0 else 1)
          (Project_getStateList element_getStateList markup_getStateList
             (self\<lparr>pr_state := st\<rparr>))
        = element_getStateList (pr_name self)
          @ element_getStateList (pr_extSchemaSrc self)
          @ concat (map markup_getStateList (pr_topicList self)))
   \<and> ((pr_state self, ProjectNode self)
         \<in> set (Project_getStateList element_getStateList markup_getStateList self))
       = ((pr_state self, ProjectNode self)
            \<in> set (element_getStateList (pr_name self)
                   @ element_getStateList (pr_extSchemaSrc self)
                   @ concat (map markup_getStateList (pr_topicList self)))
          \<or> pr_state self \<noteq> ORIGINAL)"
  by (auto simp: Project_getStateList_def isOriginal_def fold_append_concat)

section \<open>Appending to a list of simple elements\<close>


section \<open>Opening the archive\<close>

text \<open>
  C10. Whatever the path and whatever the file system, \<^verbatim>\<open>readFile\<close> ends in the exception
  of its first line: it never returns, neither an archive nor \<^verbatim>\<open>None\<close>.
\<close>

theorem readFile_always_raises:
  "readFile env path = Inl TypeError \<and> (\<forall>r. readFile env path \<noteq> Inr r)"
  by (simp add: readFile_def ebind_def)

section \<open>Defaults of absent fields\<close>

lemma getOptionalFromDict_absent:
  "absent k d \<Longrightarrow> getOptionalFromDict d k dflt = Inr dflt"
  by (simp add: getOptionalFromDict_def ebind_def absent_def)

lemma absent_default:
  "getOptionalFromDict d k dflt = Inr x \<Longrightarrow> absent k d \<longrightarrow> x = dflt"
  using getOptionalFromDict_absent [of k d dflt] by auto

lemma absent_date:
  "getOptionalFromDict d k PNone = Inr v \<Longrightarrow> parse_unless_None env v = Inr x \<Longrightarrow>
   absent k d \<longrightarrow> x = None"
  using getOptionalFromDict_absent [of k d PNone] by (auto simp: parse_unless_None_def)

lemma absent_list:
  "getOptionalFromDict d k (PList []) = Inr v \<Longrightarrow> comprehension f v = Inr xs \<Longrightarrow>
   absent k d \<longrightarrow> xs = []"
  using getOptionalFromDict_absent [of k d "PList []"]
  by (auto simp: comprehension_def ebind_def)

lemma absent_member:
  "py_in k d = Inr b \<Longrightarrow> (if b then m else Inr None) = Inr x \<Longrightarrow> absent k d \<longrightarrow> x = None"
  by (auto simp: absent_def)

lemma absent_wrapped_None:
  "getOptionalFromDict d k PNone = Inr v \<Longrightarrow> wrap_if_true C v = Inr x \<Longrightarrow>
   absent k d \<longrightarrow> x = Undecoded PNone"
  using getOptionalFromDict_absent [of k d PNone] by (auto simp: wrap_if_true_def)

lemma absent_wrapped_empty:
  "getOptionalFromDict d k (PStr []) = Inr v \<Longrightarrow> wrap_if_true C v = Inr x \<Longrightarrow>
   absent k d \<longrightarrow> x = Undecoded (PStr [])"
  using getOptionalFromDict_absent [of k d "PStr []"] by (auto simp: wrap_if_true_def)

lemma absent_comment_viewpoint:
  "getOptionalFromDict d k PNone = Inr v \<Longrightarrow>
   (if truthy v then m else Inr (NotBuilt v)) = Inr x \<Longrightarrow>
   absent k d \<longrightarrow> x = NotBuilt PNone"
  using getOptionalFromDict_absent [of k d PNone] by auto

lemma buildViewpointReference_defaults:
  assumes "buildViewpointReference env viewpointDict = Inr r"
  shows "(absent ''Viewpoint'' viewpointDict \<longrightarrow> vr_file r = Undecoded PNone)
       \<and> (absent ''Snapshot'' viewpointDict \<longrightarrow> vr_snapshot r = Undecoded PNone)
       \<and> (absent ''Index'' viewpointDict \<longrightarrow> vr_index r = PInt (- 1))"
  using assms unfolding buildViewpointReference_def ViewpointReference_init_def
  apply (elim ebind_InrE)
  apply (simp only: sum.inject)
  apply hypsubst
  apply (simp only: ViewpointReference.simps)
  apply (intro conjI)
  apply (erule absent_default | erule (1) absent_wrapped_None)+
  done

lemma buildComment_defaults:
  assumes "buildComment env commentDict = Inr c"
  shows "(absent ''ModifiedAuthor'' commentDict \<longrightarrow> cm_modifiedAuthor c = PStr '''')
       \<and> (absent ''ModifiedDate'' commentDict \<longrightarrow> cm_modifiedDate c = None)
       \<and> (absent ''Viewpoint'' commentDict \<longrightarrow> cm_viewpoint c = NotBuilt PNone)"
  using assms unfolding buildComment_def
  apply (elim ebind_InrE)
  apply (simp only: sum.inject)
  apply hypsubst
  apply (simp only: Comment.simps)
  apply (intro conjI)
  apply (erule absent_default | erule (1) absent_date | erule (1) absent_comment_viewpoint)+
  done

lemma buildBimSnippet_defaults:
  assumes "buildBimSnippet snippetDict = Inr b"
  shows "absent ''@isExternal'' snippetDict \<longrightarrow> bs_isExternal b = PBool False"
  using assms unfolding buildBimSnippet_def
  apply (elim ebind_InrE)
  apply (simp only: sum.inject)
  apply hypsubst
  apply (simp only: BimSnippet.simps)
  apply (erule absent_default)
  done

lemma buildDocRef_defaults:
  assumes "buildDocRef env docDict = Inr dr"
  shows "(absent ''ReferencedDocument'' docDict \<longrightarrow> dr_reference dr = Undecoded PNone)
       \<and> (absent ''Description'' docDict \<longrightarrow> dr_description dr = PNone)
       \<and> (absent ''@Guid'' docDict \<longrightarrow> dr_id dr = Undecoded PNone)
       \<and> (absent ''@isExternal'' docDict \<longrightarrow> dr_external dr = PBool False)"
  using assms unfolding buildDocRef_def
  apply (elim ebind_InrE)
  apply (simp only: sum.inject)
  apply hypsubst
  apply (simp only: DocumentReference.simps)
  apply (intro conjI)
  apply (erule absent_default | erule (1) absent_wrapped_None)+
  done

lemma buildFile_defaults:
  assumes "buildFile env fileDict = Inr hf"
  shows "(absent ''Filename'' fileDict \<longrightarrow> hf_filename hf = PStr '''')
       \<and> (absent ''Date'' fileDict \<longrightarrow> hf_date hf = Undecoded PNone)
       \<and> (absent ''Reference'' fileDict \<longrightarrow> hf_reference hf = Undecoded (PStr ''''))
       \<and> (absent ''@IfcProject'' fileDict \<longrightarrow> hf_ifcProjectId hf = PStr '''')
       \<and> (absent ''@IfcSpatialStructureElement'' fileDict \<longrightarrow>
            hf_ifcSpatialStructureElement hf = PStr '''')
       \<and> (absent ''@isExternal'' fileDict \<longrightarrow> hf_isExternal hf = PBool True)"
  using assms unfolding buildFile_def
  apply (elim ebind_InrE)
  apply (simp only: sum.inject)
  apply hypsubst
  apply (simp only: HeaderFile.simps)
  apply (intro conjI)
  apply (erule absent_default | erule (1) absent_wrapped_None | erule (1) absent_wrapped_empty)+
  done

lemma buildViewSetupHints_defaults:
  assumes "buildViewSetupHints vshDict = Inr vsh"
  shows "(absent ''@SpacesVisible'' vshDict \<longrightarrow> vsh_spacesVisible vsh = PBool False)
       \<and> (absent ''@SpaceBoundariesVisible'' vshDict \<longrightarrow>
            vsh_spaceBoundariesVisible vsh = PBool False)
       \<and> (absent ''@OpeningsVisible'' vshDict \<longrightarrow> vsh_openingsVisible vsh = PBool False)"
  using assms unfolding buildViewSetupHints_def
  apply (elim ebind_InrE)
  apply (simp only: sum.inject)
  apply hypsubst
  apply (simp only: ViewSetupHints.simps)
  apply (intro conjI)
  apply (erule absent_default)+
  done

lemma buildComponent_defaults:
  assumes "buildComponent componentDict = Inr cp"
  shows "(absent ''@IfcGuid'' componentDict \<longrightarrow> cp_ifcId cp = PNone)
       \<and> (absent ''AuthoringToolId'' componentDict \<longrightarrow> cp_authoringToolId cp = PStr '''')
       \<and> (absent ''OriginatingSystem'' componentDict \<longrightarrow> cp_originatingSystem cp = PStr '''')"
  using assms unfolding buildComponent_def
  apply (elim ebind_InrE)
  apply (simp only: sum.inject)
  apply hypsubst
  apply (simp only: Component.simps)
  apply (intro conjI)
  apply (erule absent_default)+
  done

lemma buildTopic_defaults:
  assumes "buildTopic env topicDict = Inr t"
  shows "(absent ''@TopicStatus'' topicDict \<longrightarrow> tp_status t = PStr '''')
       \<and> (absent ''@TopicType'' topicDict \<longrightarrow> tp_type t = PStr '''')
       \<and> (absent ''Priority'' topicDict \<longrightarrow> tp_priority t = PStr '''')
       \<and> (absent ''ModifiedDate'' topicDict \<longrightarrow> tp_modifiedDate t = None)
       \<and> (absent ''ModifiedAuthor'' topicDict \<longrightarrow> tp_modifiedAuthor t = PStr '''')
       \<and> (absent ''Index'' topicDict \<longrightarrow> tp_index t = PInt (- 1))
       \<and> (absent ''DueDate'' topicDict \<longrightarrow> tp_dueDate t = None)
       \<and> (absent ''AssignedTo'' topicDict \<longrightarrow> tp_assignee t = PStr '''')
       \<and> (absent ''Stage'' topicDict \<longrightarrow> tp_stage t = PStr '''')
       \<and> (absent ''Description'' topicDict \<longrightarrow> tp_description t = PStr '''')
       \<and> (absent ''BimSnippet'' topicDict \<longrightarrow> tp_bimSnippet t = None)
       \<and> (absent ''Labels'' topicDict \<longrightarrow> tp_labels t = PList [])
       \<and> (absent ''DocumentReference'' topicDict \<longrightarrow> tp_docRefs t = [])
       \<and> (absent ''RelatedTopic'' topicDict \<longrightarrow> tp_relatedTopics t = [])
       \<and> (absent ''ReferenceLink'' topicDict \<longrightarrow> tp_referenceLinks t = PList [])"
  using assms unfolding buildTopic_def
  apply (elim ebind_InrE)
  apply (simp only: sum.inject)
  apply hypsubst
  apply (simp only: Topic.simps)
  apply (intro conjI)
  apply (erule absent_default | erule (1) absent_date | erule (1) absent_list
         | erule (1) absent_member)+
  done

text \<open>
  C6, as the code has it. Whenever one of these builders returns, every optional field that
  the record lacks holds a fixed default: the empty string for the optional text fields of
  a topic, a comment, a header file and a component (authoring tool, originating system);
  \<open>-1\<close> for the order index; \<^verbatim>\<open>False\<close> for \<^verbatim>\<open>isExternal\<close> of a snippet and of a document
  reference and for the three view-setup flags, \<^verbatim>\<open>True\<close> for \<^verbatim>\<open>isExternal\<close> of a header file;
  \<^verbatim>\<open>None\<close> for dates, the snippet, a comment's viewpoint and the locators and identifier that
  would be wrapped; the empty list for the lists of a topic. Three fields do not follow the
  pattern of their kind: the description of a document reference and the IFC identifier of a
  component are text and default to \<^verbatim>\<open>None\<close>, and the reference locator of a header file
  defaults to the empty string.
\<close>

theorem absent_fields_get_defaults:
  "(buildTopic env topicDict = Inr t \<longrightarrow>
       (absent ''@TopicStatus'' topicDict \<longrightarrow> tp_status t = PStr '''')
     \<and> (absent ''@TopicType'' topicDict \<longrightarrow> tp_type t = PStr '''')
     \<and> (absent ''Priority'' topicDict \<longrightarrow> tp_priority t = PStr '''')
     \<and> (absent ''ModifiedDate'' topicDict \<longrightarrow> tp_modifiedDate t = None)
     \<and> (absent ''ModifiedAuthor'' topicDict \<longrightarrow> tp_modifiedAuthor t = PStr '''')
     \<and> (absent ''Index'' topicDict \<longrightarrow> tp_index t = PInt (- 1))
     \<and> (absent ''DueDate'' topicDict \<longrightarrow> tp_dueDate t = None)
     \<and> (absent ''AssignedTo'' topicDict \<longrightarrow> tp_assignee t = PStr '''')
     \<and> (absent ''Stage'' topicDict \<longrightarrow> tp_stage t = PStr '''')
     \<and> (absent ''Description'' topicDict \<longrightarrow> tp_description t = PStr '''')
     \<and> (absent ''BimSnippet'' topicDict \<longrightarrow> tp_bimSnippet t = None)
     \<and> (absent ''Labels'' topicDict \<longrightarrow> tp_labels t = PList [])
     \<and> (absent ''DocumentReference'' topicDict \<longrightarrow> tp_docRefs t = [])
     \<and> (absent ''RelatedTopic'' topicDict \<longrightarrow> tp_relatedTopics t = [])
     \<and> (absent ''ReferenceLink'' topicDict \<longrightarrow> tp_referenceLinks t = PList []))
   \<and> (buildViewpointReference env viewpointDict = Inr r \<longrightarrow>
       (absent ''Viewpoint'' viewpointDict \<longrightarrow> vr_file r = Undecoded PNone)
     \<and> (absent ''Snapshot'' viewpointDict \<longrightarrow> vr_snapshot r = Undecoded PNone)
     \<and> (absent ''Index'' viewpointDict \<longrightarrow> vr_index r = PInt (- 1)))
   \<and> (buildComment env commentDict = Inr c \<longrightarrow>
       (absent ''ModifiedAuthor'' commentDict \<longrightarrow> cm_modifiedAuthor c = PStr '''')
     \<and> (absent ''ModifiedDate'' commentDict \<longrightarrow> cm_modifiedDate c = None)
     \<and> (absent ''Viewpoint'' commentDict \<longrightarrow> cm_viewpoint c = NotBuilt PNone))
   \<and> (buildBimSnippet snippetDict = Inr b \<longrightarrow>
       (absent ''@isExternal'' snippetDict \<longrightarrow> bs_isExternal b = PBool False))
   \<and> (buildDocRef env docDict = Inr dr \<longrightarrow>
       (absent ''ReferencedDocument'' docDict \<longrightarrow> dr_reference dr = Undecoded PNone)
     \<and> (absent ''Description'' docDict \<longrightarrow> dr_description dr = PNone)
     \<and> (absent ''@Guid'' docDict \<longrightarrow> dr_id dr = Undecoded PNone)
     \<and> (absent ''@isExternal'' docDict \<longrightarrow> dr_external dr = PBool False))
   \<and> (buildFile env fileDict = Inr hf \<longrightarrow>
       (absent ''Filename'' fileDict \<longrightarrow> hf_filename hf = PStr '''')
     \<and> (absent ''Date'' fileDict \<longrightarrow> hf_date hf = Undecoded PNone)
     \<and> (absent ''Reference'' fileDict \<longrightarrow> hf_reference hf = Undecoded (PStr ''''))
     \<and> (absent ''@IfcProject'' fileDict \<longrightarrow> hf_ifcProjectId hf = PStr '''')
     \<and> (absent ''@IfcSpatialStructureElement'' fileDict \<longrightarrow>
          hf_ifcSpatialStructureElement hf = PStr '''')
     \<and> (absent ''@isExternal'' fileDict \<longrightarrow> hf_isExternal hf = PBool True))
   \<and> (buildViewSetupHints vshDict = Inr vsh \<longrightarrow>
       (absent ''@SpacesVisible'' vshDict \<longrightarrow> vsh_spacesVisible vsh = PBool False)
     \<and> (absent ''@SpaceBoundariesVisible'' vshDict \<longrightarrow>
          vsh_spaceBoundariesVisible vsh = PBool False)
     \<and> (absent ''@OpeningsVisible'' vshDict \<longrightarrow> vsh_openingsVisible vsh = PBool False))
   \<and> (buildComponent componentDict = Inr cp \<longrightarrow>
       (absent ''@IfcGuid'' componentDict \<longrightarrow> cp_ifcId cp = PNone)
     \<and> (absent ''AuthoringToolId'' componentDict \<longrightarrow> cp_authoringToolId cp = PStr '''')
     \<and> (absent ''OriginatingSystem'' componentDict \<longrightarrow> cp_originatingSystem cp = PStr ''''))"
  apply (rule conjI, rule impI, erule buildTopic_defaults)
  apply (rule conjI, rule impI, erule buildViewpointReference_defaults)
  apply (rule conjI, rule impI, erule buildComment_defaults)
  apply (rule conjI, rule impI, erule buildBimSnippet_defaults)
  apply (rule conjI, rule impI, erule buildDocRef_defaults)
  apply (rule conjI, rule impI, erule buildFile_defaults)
  apply (rule conjI, rule impI, erule buildViewSetupHints_defaults)
  apply (rule impI, erule buildComponent_defaults)
  done

theorem absent_fields_get_defaults_witness:
  "buildTopic (demo_env demo_files []) (demo_topic ''t1'')
     = Inr \<lparr>tp_id = ''t1'', tp_title = PStr ''A title'', tp_date = ''2019-05-01T10:00:00'',
            tp_author = PStr ''a@b.c'', tp_type = PStr '''', tp_status = PStr '''',
            tp_referenceLinks = PList [], tp_docRefs = [], tp_priority = PStr '''',
            tp_index = PInt (- 1), tp_labels = PList [], tp_modifiedDate = None,
            tp_modifiedAuthor = PStr '''', tp_dueDate = None, tp_assignee = PStr '''',
            tp_description = PStr '''', tp_stage = PStr '''', tp_relatedTopics = [],
            tp_bimSnippet = None\<rparr>
   \<and> list_all (\<lambda>k. absent k (demo_topic ''t1''))
        [''@TopicStatus'', ''@TopicType'', ''Priority'', ''ModifiedDate'', ''ModifiedAuthor'',
         ''Index'', ''DueDate'', ''AssignedTo'', ''Stage'', ''Description'', ''BimSnippet'',
         ''Labels'', ''DocumentReference'', ''RelatedTopic'', ''ReferenceLink'']
   \<and> buildViewpointReference (demo_env demo_files []) (PDict [(''@Guid'', PStr ''v1'')])
     = Inr \<lparr>vr_xmlId = ''v1'', vr_file = Undecoded PNone, vr_snapshot = Undecoded PNone,
            vr_index = PInt (- 1), vr_viewpoint = None\<rparr>
   \<and> list_all (\<lambda>k. absent k (PDict [(''@Guid'', PStr ''v1'')]))
        [''Viewpoint'', ''Snapshot'', ''Index'']
   \<and> buildComment (demo_env demo_files []) demo_comment_plain
     = Inr \<lparr>cm_id = ''c3'', cm_date = ''2019-05-02T10:00:00'', cm_author = PStr ''a@b.c'',
            cm_comment = PStr ''A remark'', cm_viewpoint = NotBuilt PNone,
            cm_modifiedDate = None, cm_modifiedAuthor = PStr ''''\<rparr>
   \<and> list_all (\<lambda>k. absent k demo_comment_plain) [''ModifiedAuthor'', ''ModifiedDate'', ''Viewpoint'']
   \<and> buildBimSnippet demo_snippet
     = Inr \<lparr>bs_snippetType = PStr ''clash'', bs_isExternal = PBool False,
            bs_reference = \<lparr>uri = PStr ''snippet.xml''\<rparr>,
            bs_referenceSchema = \<lparr>uri = PStr ''snippet.xsd''\<rparr>\<rparr>
   \<and> absent ''@isExternal'' demo_snippet
   \<and> buildDocRef (demo_env demo_files []) (PDict [])
     = Inr \<lparr>dr_id = Undecoded PNone, dr_external = PBool False,
            dr_reference = Undecoded PNone, dr_description = PNone\<rparr>
   \<and> buildFile (demo_env demo_files []) (PDict [])
     = Inr \<lparr>hf_ifcProjectId = PStr '''', hf_ifcSpatialStructureElement = PStr '''',
            hf_isExternal = PBool True, hf_filename = PStr '''', hf_date = Undecoded PNone,
            hf_reference = Undecoded (PStr '''')\<rparr>
   \<and> buildViewSetupHints (PDict [])
     = Inr \<lparr>vsh_openingsVisible = PBool False, vsh_spacesVisible = PBool False,
            vsh_spaceBoundariesVisible = PBool False\<rparr>
   \<and> buildComponent (PDict [])
     = Inr \<lparr>cp_ifcId = PNone, cp_originatingSystem = PStr '''', cp_authoringToolId = PStr ''''\<rparr>
   \<and> list_all (\<lambda>k. absent k (PDict []))
        [''ReferencedDocument'', ''Description'', ''@Guid'', ''@isExternal'', ''Filename'',
         ''Date'', ''Reference'', ''@IfcProject'', ''@IfcSpatialStructureElement'',
         ''@SpacesVisible'', ''@SpaceBoundariesVisible'', ''@OpeningsVisible'', ''@IfcGuid'',
         ''AuthoringToolId'', ''OriginatingSystem'']"
proof -
  let ?env = "demo_env demo_files [] :: (string, string) env"
  have h1: "buildTopic ?env (demo_topic ''t1'')
     = Inr \<lparr>tp_id = ''t1'', tp_title = PStr ''A title'', tp_date = ''2019-05-01T10:00:00'',
            tp_author = PStr ''a@b.c'', tp_type = PStr '''', tp_status = PStr '''',
            tp_referenceLinks = PList [], tp_docRefs = [], tp_priority = PStr '''',
            tp_index = PInt (- 1), tp_labels = PList [], tp_modifiedDate = None,
            tp_modifiedAuthor = PStr '''', tp_dueDate = None, tp_assignee = PStr '''',
            tp_description = PStr '''', tp_stage = PStr '''', tp_relatedTopics = [],
            tp_bimSnippet = None\<rparr>"
    by code_simp
  have a1: "list_all (\<lambda>k. absent k (demo_topic ''t1''))
        [''@TopicStatus'', ''@TopicType'', ''Priority'', ''ModifiedDate'', ''ModifiedAuthor'',
         ''Index'', ''DueDate'', ''AssignedTo'', ''Stage'', ''Description'', ''BimSnippet'',
         ''Labels'', ''DocumentReference'', ''RelatedTopic'', ''ReferenceLink'']"
    by code_simp
  have h2: "buildViewpointReference ?env (PDict [(''@Guid'', PStr ''v1'')])
     = Inr \<lparr>vr_xmlId = ''v1'', vr_file = Undecoded PNone, vr_snapshot = Undecoded PNone,
            vr_index = PInt (- 1), vr_viewpoint = None\<rparr>"
    by code_simp
  have a2: "list_all (\<lambda>k. absent k (PDict [(''@Guid'', PStr ''v1'')]))
        [''Viewpoint'', ''Snapshot'', ''Index'']"
    by code_simp
  have h3: "buildComment ?env demo_comment_plain
     = Inr \<lparr>cm_id = ''c3'', cm_date = ''2019-05-02T10:00:00'', cm_author = PStr ''a@b.c'',
            cm_comment = PStr ''A remark'', cm_viewpoint = NotBuilt PNone,
            cm_modifiedDate = None, cm_modifiedAuthor = PStr ''''\<rparr>"
    by code_simp
  have a3: "list_all (\<lambda>k. absent k demo_comment_plain)
        [''ModifiedAuthor'', ''ModifiedDate'', ''Viewpoint'']"
    by code_simp
  have h4: "buildBimSnippet demo_snippet
     = Inr \<lparr>bs_snippetType = PStr ''clash'', bs_isExternal = PBool False,
            bs_reference = \<lparr>uri = PStr ''snippet.xml''\<rparr>,
            bs_referenceSchema = \<lparr>uri = PStr ''snippet.xsd''\<rparr>\<rparr>"
    by code_simp
  have a4: "absent ''@isExternal'' demo_snippet"
    by code_simp
  have h5: "buildDocRef ?env (PDict [])
     = Inr \<lparr>dr_id = Undecoded PNone, dr_external = PBool False,
            dr_reference = Undecoded PNone, dr_description = PNone\<rparr>"
    by code_simp
  have h6: "buildFile ?env (PDict [])
     = Inr \<lparr>hf_ifcProjectId = PStr '''', hf_ifcSpatialStructureElement = PStr '''',
            hf_isExternal = PBool True, hf_filename = PStr '''', hf_date = Undecoded PNone,
            hf_reference = Undecoded (PStr '''')\<rparr>"
    by code_simp
  have h7: "buildViewSetupHints (PDict [])
     = Inr \<lparr>vsh_openingsVisible = PBool False, vsh_spacesVisible = PBool False,
            vsh_spaceBoundariesVisible = PBool False\<rparr>"
    by code_simp
  have h8: "buildComponent (PDict [])
     = Inr \<lparr>cp_ifcId = PNone, cp_originatingSystem = PStr '''', cp_authoringToolId = PStr ''''\<rparr>"
    by code_simp
  have a5: "list_all (\<lambda>k. absent k (PDict []))
        [''ReferencedDocument'', ''Description'', ''@Guid'', ''@isExternal'', ''Filename'',
         ''Date'', ''Reference'', ''@IfcProject'', ''@IfcSpatialStructureElement'',
         ''@SpacesVisible'', ''@SpaceBoundariesVisible'', ''@OpeningsVisible'', ''@IfcGuid'',
         ''AuthoringToolId'', ''OriginatingSystem'']"
    by code_simp
  show ?thesis using absent_fields_get_defaults [of ?env "demo_topic ''t1''"
      "\<lparr>tp_id = ''t1'', tp_title = PStr ''A title'', tp_date = ''2019-05-01T10:00:00'',
        tp_author = PStr ''a@b.c'', tp_type = PStr '''', tp_status = PStr '''',
        tp_referenceLinks = PList [], tp_docRefs = [], tp_priority = PStr '''',
        tp_index = PInt (- 1), tp_labels = PList [], tp_modifiedDate = None,
        tp_modifiedAuthor = PStr '''', tp_dueDate = None, tp_assignee = PStr '''',
        tp_description = PStr '''', tp_stage = PStr '''', tp_relatedTopics = [],
        tp_bimSnippet = None\<rparr>"
      "PDict [(''@Guid'', PStr ''v1'')]"
      "\<lparr>vr_xmlId = ''v1'', vr_file = Undecoded PNone, vr_snapshot = Undecoded PNone,
        vr_index = PInt (- 1), vr_viewpoint = None\<rparr>"
      demo_comment_plain
      "\<lparr>cm_id = ''c3'', cm_date = ''2019-05-02T10:00:00'', cm_author = PStr ''a@b.c'',
        cm_comment = PStr ''A remark'', cm_viewpoint = NotBuilt PNone,
        cm_modifiedDate = None, cm_modifiedAuthor = PStr ''''\<rparr>"
      demo_snippet
      "\<lparr>bs_snippetType = PStr ''clash'', bs_isExternal = PBool False,
        bs_reference = \<lparr>uri = PStr ''snippet.xml''\<rparr>,
        bs_referenceSchema = \<lparr>uri = PStr ''snippet.xsd''\<rparr>\<rparr>"
      "PDict []"
      "\<lparr>dr_id = Undecoded PNone, dr_external = PBool False,
        dr_reference = Undecoded PNone, dr_description = PNone\<rparr>"
      "PDict []"
      "\<lparr>hf_ifcProjectId = PStr '''', hf_ifcSpatialStructureElement = PStr '''',
        hf_isExternal = PBool True, hf_filename = PStr '''', hf_date = Undecoded PNone,
        hf_reference = Undecoded (PStr '''')\<rparr>"
      "PDict []"
      "\<lparr>vsh_openingsVisible = PBool False, vsh_spacesVisible = PBool False,
        vsh_spaceBoundariesVisible = PBool False\<rparr>"
      "PDict []"
      "\<lparr>cp_ifcId = PNone, cp_originatingSystem = PStr '''',
        cp_authoringToolId = PStr ''''\<rparr>"]
    h1 a1 h2 a2 h3 a3 h4 a4 h5 h6 h7 h8 a5
    apply -
    apply (intro conjI)
    apply assumption+
    done
qed

theorem text_field_defaults_to_None:
  "absent ''Description'' (PDict [(''ReferencedDocument'', PStr ''plan.pdf'')])
   \<and> buildDocRef (demo_env demo_files []) (PDict [(''ReferencedDocument'', PStr ''plan.pdf'')])
     = Inr \<lparr>dr_id = Undecoded PNone, dr_external = PBool False,
            dr_reference = Built \<lparr>uri = PStr ''plan.pdf''\<rparr>, dr_description = PNone\<rparr>
   \<and> absent ''@IfcGuid'' (PDict [(''AuthoringToolId'', PStr ''wall-17'')])
   \<and> buildComponent (PDict [(''AuthoringToolId'', PStr ''wall-17'')])
     = Inr \<lparr>cp_ifcId = PNone, cp_originatingSystem = PStr '''',
            cp_authoringToolId = PStr ''wall-17''\<rparr>"
  by code_simp

section \<open>The supported versions\<close>

lemma readBcfFile_schemas_missing:
  assumes "copySchemas env (getSystemTmp env) = (ps, es, ms, vs, vis)"
    and "ps = None \<or> ms = None \<or> vs = None \<or> vis = None"
  shows "readBcfFile env bcfFile = ([SchemasMissing], Inr None)"
  using assms by (auto simp: readBcfFile_def split: option.splits)

lemma readBcfFile_after_extraction:
  assumes "copySchemas env (getSystemTmp env) = (Some ps, es, Some ms, Some vs, Some vis)"
    and "extractFileToTmp env bcfFile = Inr extracted"
  shows "readBcfFile env bcfFile =
    (if \<not> path_exists env (os_path_join extracted ''bcf.version'') then
       (case printErr_file_keyword env of
          Some e \<Rightarrow> ([], Inl e)
        | None \<Rightarrow> ([NoVersionFile], Inr None))
     else
       (case validateFile env (os_path_join extracted ''bcf.version'') vs bcfFile of
          Inl e \<Rightarrow> ([], Inl e)
        | Inr error \<Rightarrow>
            if error \<noteq> '''' then ([], Inl (pprint_file_keyword env))
            else
              (case getVersion env extracted vs of
                 Inl e \<Rightarrow> ([], Inl e)
               | Inr version \<Rightarrow>
                   if version \<notin> set SUPPORTED_VERSIONS
                   then ([], Inl (pprint_file_keyword env))
                   else
                     (case validate_and_build_project env bcfFile extracted ps of
                        Inl e \<Rightarrow> ([], Inl e)
                      | Inr proj \<Rightarrow>
                          readTopics env bcfFile extracted ms vis
                            (getDirectories env extracted) proj []))))"
  using assms by (simp add: readBcfFile_def)

text \<open>
  C4. Once the archive is extracted, a load returns no project when \<^verbatim>\<open>bcf.version\<close> is
  missing, and none when the version that \<^verbatim>\<open>getVersion\<close> reads is not a member of
  \<open>SUPPORTED_VERSIONS\<close> (which includes the cases that \<^verbatim>\<open>getVersion\<close> raises or returns
  \<^verbatim>\<open>None\<close>): the call returns \<^verbatim>\<open>None\<close> or ends in an exception.
\<close>

theorem no_project_without_supported_version:
  assumes "copySchemas env (getSystemTmp env) = (ps, es, ms, Some vs, vis)"
    and "extractFileToTmp env bcfFile = Inr extracted"
    and "\<not> path_exists env (os_path_join extracted ''bcf.version'')
         \<or> getVersion env extracted vs \<notin> Inr ` set SUPPORTED_VERSIONS"
  shows "\<forall>proj. snd (readBcfFile env bcfFile) \<noteq> Inr (Some proj)"
proof (cases "ps = None \<or> ms = None \<or> vis = None")
  case True
  with assms(1) have "readBcfFile env bcfFile = ([SchemasMissing], Inr None)"
    by (intro readBcfFile_schemas_missing [of env ps es ms "Some vs" vis]) auto
  then show ?thesis by simp
next
  case False
  then obtain ps' ms' vis' where "ps = Some ps'" "ms = Some ms'" "vis = Some vis'" by auto
  with assms(1) have
    c: "copySchemas env (getSystemTmp env) = (Some ps', es, Some ms', Some vs, Some vis')"
    by simp
  note r = readBcfFile_after_extraction [OF c assms(2)]
  show ?thesis
  proof (cases "path_exists env (os_path_join extracted ''bcf.version'')")
    case False
    then show ?thesis by (simp add: r split: option.splits)
  next
    case True
    with assms(3) have v: "getVersion env extracted vs \<notin> Inr ` set SUPPORTED_VERSIONS"
      by simp
    show ?thesis
    proof (cases "validateFile env (os_path_join extracted ''bcf.version'') vs bcfFile")
      case (Inl e)
      with True show ?thesis by (simp add: r)
    next
      case valid: (Inr error)
      show ?thesis
      proof (cases "getVersion env extracted vs")
        case (Inl e)
        with True valid show ?thesis by (simp add: r)
      next
        case (Inr version)
        with v have "version \<notin> set SUPPORTED_VERSIONS" by auto
        with True valid Inr show ?thesis by (simp add: r)
      qed
    qed
  qed
qed

theorem no_project_without_supported_version_witness:
  "copySchemas (demo_env (demo_files(''/tmp/a.bcf/bcf.version'' := None)) [''t1'', ''t2''])
     (getSystemTmp (demo_env (demo_files(''/tmp/a.bcf/bcf.version'' := None)) [''t1'', ''t2'']))
     = (Some ''/tmp/project.xsd'', Some ''/tmp/extensions.xsd'', Some ''/tmp/markup.xsd'',
        Some ''/tmp/version.xsd'', Some ''/tmp/visinfo.xsd'')
   \<and> extractFileToTmp (demo_env (demo_files(''/tmp/a.bcf/bcf.version'' := None)) [''t1'', ''t2''])
       ''/home/u/a.bcf'' = Inr ''/tmp/a.bcf''
   \<and> \<not> path_exists (demo_env (demo_files(''/tmp/a.bcf/bcf.version'' := None)) [''t1'', ''t2''])
         (os_path_join ''/tmp/a.bcf'' ''bcf.version'')
   \<and> (\<forall>proj. snd (readBcfFile
         (demo_env (demo_files(''/tmp/a.bcf/bcf.version'' := None)) [''t1'', ''t2''])
         ''/home/u/a.bcf'') \<noteq> Inr (Some proj))
   \<and> getVersion
       (demo_env (demo_files(''/tmp/a.bcf/bcf.version'' \<mapsto> PDict [(''@VersionId'', PStr ''2.0'')]))
          [''t1'', ''t2''])
       ''/tmp/a.bcf'' ''/tmp/version.xsd'' = Inr (PStr ''2.0'')
   \<and> PStr ''2.0'' \<notin> set SUPPORTED_VERSIONS
   \<and> (\<forall>proj. snd (readBcfFile
         (demo_env (demo_files(''/tmp/a.bcf/bcf.version'' \<mapsto> PDict [(''@VersionId'', PStr ''2.0'')]))
            [''t1'', ''t2''])
         ''/home/u/a.bcf'') \<noteq> Inr (Some proj))"
proof -
  let ?A = "demo_env (demo_files(''/tmp/a.bcf/bcf.version'' := None)) [''t1'', ''t2'']"
  let ?B = "demo_env (demo_files(''/tmp/a.bcf/bcf.version'' \<mapsto>
                PDict [(''@VersionId'', PStr ''2.0'')])) [''t1'', ''t2'']"
  have cA: "copySchemas ?A (getSystemTmp ?A)
     = (Some ''/tmp/project.xsd'', Some ''/tmp/extensions.xsd'', Some ''/tmp/markup.xsd'',
        Some ''/tmp/version.xsd'', Some ''/tmp/visinfo.xsd'')"
    by (simp add: demo_env_def)
  have cB: "copySchemas ?B (getSystemTmp ?B)
     = (Some ''/tmp/project.xsd'', Some ''/tmp/extensions.xsd'', Some ''/tmp/markup.xsd'',
        Some ''/tmp/version.xsd'', Some ''/tmp/visinfo.xsd'')"
    by (simp add: demo_env_def)
  have eA: "extractFileToTmp ?A ''/home/u/a.bcf'' = Inr ''/tmp/a.bcf''"
    by code_simp
  have eB: "extractFileToTmp ?B ''/home/u/a.bcf'' = Inr ''/tmp/a.bcf''"
    by code_simp
  have nA: "\<not> path_exists ?A (os_path_join ''/tmp/a.bcf'' ''bcf.version'')"
    by code_simp
  have vB: "getVersion ?B ''/tmp/a.bcf'' ''/tmp/version.xsd'' = Inr (PStr ''2.0'')"
    by code_simp
  have sB: "PStr ''2.0'' \<notin> set SUPPORTED_VERSIONS"
    by (simp add: SUPPORTED_VERSIONS_def)
  from vB sB have gB: "getVersion ?B ''/tmp/a.bcf'' ''/tmp/version.xsd''
                         \<notin> Inr ` set SUPPORTED_VERSIONS"
    by auto
  have rA: "\<forall>proj. snd (readBcfFile ?A ''/home/u/a.bcf'') \<noteq> Inr (Some proj)"
    using no_project_without_supported_version [OF cA eA] nA by blast
  have rB: "\<forall>proj. snd (readBcfFile ?B ''/home/u/a.bcf'') \<noteq> Inr (Some proj)"
    using no_project_without_supported_version [OF cB eB] gB by blast
  from cA eA nA rA vB sB rB show ?thesis by (intro conjI)
qed

section \<open>Resolving the viewpoint of a comment\<close>

lemma first_index_None: "first_index P xs = None \<longleftrightarrow> (\<forall>x\<in>set xs. \<not> P x)"
  by (induction xs) auto

lemma first_index_Some:
  "first_index P xs = Some i \<Longrightarrow> i < length xs \<and> P (xs ! i) \<and> (\<forall>j<i. \<not> P (xs ! j))"
proof (induction xs arbitrary: i)
  case Nil
  then show ?case by simp
next
  case (Cons x xs)
  show ?case
  proof (cases "P x")
    case True
    with Cons.prems show ?thesis by simp
  next
    case False
    with Cons.prems obtain k where k: "first_index P xs = Some k" and i: "i = Suc k"
      by auto
    from Cons.IH [OF k] have "k < length xs" "P (xs ! k)" "\<forall>j<k. \<not> P (xs ! j)"
      by auto
    with False i show ?thesis by (auto simp: nth_Cons split: nat.splits)
  qed
qed

lemma emap_total: "(\<And>x. x \<in> set xs \<Longrightarrow> f x = Inr (g x)) \<Longrightarrow> emap f xs = Inr (map g xs)"
  by (induction xs) (simp_all add: ebind_Inr)

text \<open>What \<^verbatim>\<open>buildComment\<close> leaves in the field: an object of its own, or a false value.\<close>

lemma buildComment_viewpoint:
  assumes "buildComment env commentDict = Inr c"
  shows "\<exists>v. getOptionalFromDict commentDict ''Viewpoint'' PNone = Inr v \<and>
           (if truthy v
            then \<exists>g. ebind (py_getitem v ''@Guid'') (UUID env) = Inr g \<and>
                   cm_viewpoint c =
                     Fresh (ViewpointReference_init g (Undecoded PNone) (Undecoded PNone)
                              (PInt (- 1)))
            else cm_viewpoint c = NotBuilt v)"
proof -
  from assms obtain v x where
    v: "getOptionalFromDict commentDict ''Viewpoint'' PNone = Inr v" and
    x: "(if truthy v
      then ebind (ebind (py_getitem v ''@Guid'') (UUID env)) (\<lambda>g.
             Inr (Fresh (ViewpointReference_init g (Undecoded PNone) (Undecoded PNone)
                           (PInt (- 1)))))
      else Inr (NotBuilt v)) = Inr x" and
    c: "cm_viewpoint c = x"
    unfolding buildComment_def by (elim ebind_InrE) auto
  show ?thesis
  proof (cases "truthy v")
    case True
    with x obtain g where "ebind (py_getitem v ''@Guid'') (UUID env) = Inr g"
      "x = Fresh (ViewpointReference_init g (Undecoded PNone) (Undecoded PNone) (PInt (- 1)))"
      by (auto simp: ebind_eq_Inr)
    with True v c show ?thesis by auto
  next
    case False
    with x v c show ?thesis by auto
  qed
qed

lemma buildComment_raw_viewpoint:
  assumes "buildComment env commentDict = Inr c"
    and "raw_viewpoint_id env commentDict = Inr (Some g)"
  shows "\<exists>r. cm_viewpoint c = Fresh r \<and> vr_xmlId r = g"
proof -
  from assms(2) obtain v where
    v: "getOptionalFromDict commentDict ''Viewpoint'' PNone = Inr v" and t: "truthy v" and
    g: "ebind (py_getitem v ''@Guid'') (UUID env) = Inr g"
    by (auto simp: raw_viewpoint_id_def ebind_eq_Inr split: if_splits)
  with buildComment_viewpoint [OF assms(1)] show ?thesis
    by (auto simp: ViewpointReference_init_def)
qed

lemma resolve_built_comment:
  assumes "buildComment env commentDict = Inr c"
  shows "resolve_viewpoint m c =
           Inr (case cm_viewpoint c of
                  Fresh r \<Rightarrow> link_viewpoint m c (vr_xmlId r)
                | NotBuilt v \<Rightarrow> c
                | Linked i \<Rightarrow> c)"
  using buildComment_viewpoint [OF assms]
  by (auto simp: resolve_viewpoint_def split: if_splits)

lemma link_viewpoint_found:
  "if \<exists>v\<in>set (mk_viewpoints m). vr_xmlId v = g
   then \<exists>i<length (mk_viewpoints m).
          cm_viewpoint (link_viewpoint m c g) = Linked i \<and>
          vr_xmlId (mk_viewpoints m ! i) = g \<and>
          (\<forall>i'<i. vr_xmlId (mk_viewpoints m ! i') \<noteq> g)
   else cm_viewpoint (link_viewpoint m c g) = NotBuilt PNone"
proof (cases "first_index (\<lambda>vpRef. vr_xmlId vpRef = g) (mk_viewpoints m)")
  case None
  then have "\<not> (\<exists>v\<in>set (mk_viewpoints m). vr_xmlId v = g)"
    by (simp add: first_index_None)
  with None show ?thesis
    by (simp add: link_viewpoint_def getViewpointRefByGuid_def)
next
  case (Some i)
  from first_index_Some [OF Some] have
    i: "i < length (mk_viewpoints m)" "vr_xmlId (mk_viewpoints m ! i) = g"
       "\<forall>j<i. vr_xmlId (mk_viewpoints m ! j) \<noteq> g"
    by auto
  then have "\<exists>v\<in>set (mk_viewpoints m). vr_xmlId v = g"
    by (metis nth_mem)
  with Some i show ?thesis
    by (auto simp: link_viewpoint_def getViewpointRefByGuid_def)
qed

text \<open>
  C2. When the parts of a markup build (the statements of \<^verbatim>\<open>buildMarkup\<close> before its last
  loop), \<^verbatim>\<open>buildMarkup\<close> returns a markup, so the loop that resolves the references raises
  nothing; and in that markup a comment whose record carries a raw viewpoint id \<open>g\<close> holds
  a reference to an object of the markup's own list of viewpoint references, the first one
  whose identifier is \<open>g\<close>, when there is one, and \<^verbatim>\<open>None\<close> when there is none.
\<close>

theorem comment_viewpoint_resolved:
  assumes "to_dict_lax env markupSchemaPath markupFilePath = Inr markupDict"
    and "getOptionalFromDict markupDict ''Comment'' (PList []) = Inr commentList"
    and "py_iter commentList = Inr records"
    and "emap (buildComment env) records = Inr comments"
    and "py_getitem markupDict ''Topic'' = Inr topicDict"
    and "buildTopic env topicDict = Inr topic"
    and "getOptionalFromDict markupDict ''Header'' PNone = Inr headerDict"
    and "(if truthy headerDict
          then ebind (py_len headerDict) (\<lambda>n.
                 if n > 0 then ebind (buildHeader env headerDict) (\<lambda>h. Inr (Some h))
                 else Inr None)
          else Inr None) = Inr header"
    and "getOptionalFromDict markupDict ''Viewpoints'' (PList []) = Inr viewpointList"
    and "comprehension (buildViewpointReference env) viewpointList = Inr viewpoints"
  shows "\<exists>m. buildMarkup env markupFilePath markupSchemaPath = Inr m \<and>
           mk_viewpoints m = viewpoints \<and>
           length (mk_comments m) = length records \<and>
           (\<forall>j<length records. \<forall>g.
              raw_viewpoint_id env (records ! j) = Inr (Some g) \<longrightarrow>
              (if \<exists>v\<in>set viewpoints. vr_xmlId v = g
               then \<exists>i<length viewpoints.
                      cm_viewpoint (mk_comments m ! j) = Linked i \<and>
                      vr_xmlId (viewpoints ! i) = g \<and>
                      (\<forall>i'<i. vr_xmlId (viewpoints ! i') \<noteq> g)
               else cm_viewpoint (mk_comments m ! j) = NotBuilt PNone))"
proof -
  let ?markup = "\<lparr>mk_topic = topic, mk_header = header, mk_comments = comments,
                  mk_viewpoints = viewpoints, mk_containingObject = None\<rparr>"
  let ?resolved = "\<lambda>c. case cm_viewpoint c of
                          Fresh r \<Rightarrow> link_viewpoint ?markup c (vr_xmlId r)
                        | NotBuilt v \<Rightarrow> c
                        | Linked i \<Rightarrow> c"
  let ?m = "?markup\<lparr>mk_comments := map ?resolved comments\<rparr>"
  have "resolve_viewpoint ?markup c = Inr (?resolved c)" if "c \<in> set comments" for c
  proof -
    from emap_set [OF assms(4) that] obtain d where "buildComment env d = Inr c"
      by blast
    then show ?thesis by (rule resolve_built_comment)
  qed
  then have loop: "emap (resolve_viewpoint ?markup) comments = Inr (map ?resolved comments)"
    by (rule emap_total)
  have comments: "comprehension (buildComment env) commentList = Inr comments"
    using assms(3,4) by (simp add: comprehension_def ebind_Inr)
  have built: "buildMarkup env markupFilePath markupSchemaPath = Inr ?m"
    unfolding buildMarkup_def
    by (simp add: assms(1,2,5-10) comments loop ebind_Inr Let_def)
  have len: "length comments = length records"
    using assms(4) by (rule emap_length)
  have "if \<exists>v\<in>set viewpoints. vr_xmlId v = g
        then \<exists>i<length viewpoints.
               cm_viewpoint (mk_comments ?m ! j) = Linked i \<and>
               vr_xmlId (viewpoints ! i) = g \<and>
               (\<forall>i'<i. vr_xmlId (viewpoints ! i') \<noteq> g)
        else cm_viewpoint (mk_comments ?m ! j) = NotBuilt PNone"
    if j: "j < length records" and g: "raw_viewpoint_id env (records ! j) = Inr (Some g)"
    for j g
  proof -
    from emap_nth [OF assms(4) j] have "buildComment env (records ! j) = Inr (comments ! j)" .
    from buildComment_raw_viewpoint [OF this g] obtain r where
      r: "cm_viewpoint (comments ! j) = Fresh r" and rg: "vr_xmlId r = g"
      by blast
    from j len r rg have eq: "mk_comments ?m ! j = link_viewpoint ?markup (comments ! j) g"
      by simp
    have v: "mk_viewpoints ?markup = viewpoints"
      by simp
    from link_viewpoint_found [of ?markup g "comments ! j"] show ?thesis
      by (simp only: eq v)
  qed
  then have "\<forall>j<length records. \<forall>g.
              raw_viewpoint_id env (records ! j) = Inr (Some g) \<longrightarrow>
              (if \<exists>v\<in>set viewpoints. vr_xmlId v = g
               then \<exists>i<length viewpoints.
                      cm_viewpoint (mk_comments ?m ! j) = Linked i \<and>
                      vr_xmlId (viewpoints ! i) = g \<and>
                      (\<forall>i'<i. vr_xmlId (viewpoints ! i') \<noteq> g)
               else cm_viewpoint (mk_comments ?m ! j) = NotBuilt PNone)"
    by blast
  with built len show ?thesis
    by (intro exI [of _ ?m]) simp
qed

theorem comment_viewpoint_resolved_witness:
  "to_dict_lax (demo_env demo_files []) ''/tmp/markup.xsd'' ''/tmp/a.bcf/t1/markup.bcf''
     = Inr demo_markup
   \<and> getOptionalFromDict demo_markup ''Comment'' (PList [])
     = Inr (PList [demo_comment ''c1'' ''v2'', demo_comment ''c2'' ''v9''])
   \<and> emap (buildComment (demo_env demo_files []))
       [demo_comment ''c1'' ''v2'', demo_comment ''c2'' ''v9'']
     = Inr [demo_comment_built ''c1''
              (Fresh (demo_reference_built ''v2'' (Undecoded PNone) None)),
            demo_comment_built ''c2''
              (Fresh (demo_reference_built ''v9'' (Undecoded PNone) None))]
   \<and> buildTopic (demo_env demo_files []) (demo_topic ''t1'') = Inr (demo_topic_built ''t1'')
   \<and> getOptionalFromDict demo_markup ''Header'' PNone = Inr PNone
   \<and> comprehension (buildViewpointReference (demo_env demo_files []))
       (PList [PDict [(''@Guid'', PStr ''v1''), (''Viewpoint'', PStr ''v1.bcfv'')],
               PDict [(''@Guid'', PStr ''v2''), (''Viewpoint'', PStr ''v2.bcfv'')]])
     = Inr [demo_reference_built ''v1'' (Built \<lparr>uri = PStr ''v1.bcfv''\<rparr>) None,
            demo_reference_built ''v2'' (Built \<lparr>uri = PStr ''v2.bcfv''\<rparr>) None]
   \<and> raw_viewpoint_id (demo_env demo_files []) (demo_comment ''c1'' ''v2'') = Inr (Some ''v2'')
   \<and> raw_viewpoint_id (demo_env demo_files []) (demo_comment ''c2'' ''v9'') = Inr (Some ''v9'')
   \<and> (\<exists>m. buildMarkup (demo_env demo_files []) ''/tmp/a.bcf/t1/markup.bcf'' ''/tmp/markup.xsd''
            = Inr m \<and>
          mk_viewpoints m =
            [demo_reference_built ''v1'' (Built \<lparr>uri = PStr ''v1.bcfv''\<rparr>) None,
             demo_reference_built ''v2'' (Built \<lparr>uri = PStr ''v2.bcfv''\<rparr>) None] \<and>
          (\<exists>i<2. cm_viewpoint (mk_comments m ! 0) = Linked i \<and>
                  vr_xmlId (mk_viewpoints m ! i) = ''v2'') \<and>
          cm_viewpoint (mk_comments m ! 1) = NotBuilt PNone)"
proof -
  let ?env = "demo_env demo_files [] :: (string, string) env"
  let ?records = "[demo_comment ''c1'' ''v2'', demo_comment ''c2'' ''v9'']"
  let ?comments = "[demo_comment_built ''c1''
                      (Fresh (demo_reference_built ''v2'' (Undecoded PNone) None)),
                    demo_comment_built ''c2''
                      (Fresh (demo_reference_built ''v9'' (Undecoded PNone) None))]"
  let ?vlist = "PList [PDict [(''@Guid'', PStr ''v1''), (''Viewpoint'', PStr ''v1.bcfv'')],
                       PDict [(''@Guid'', PStr ''v2''), (''Viewpoint'', PStr ''v2.bcfv'')]]"
  let ?viewpoints = "[demo_reference_built ''v1'' (Built \<lparr>uri = PStr ''v1.bcfv''\<rparr>) None,
                      demo_reference_built ''v2'' (Built \<lparr>uri = PStr ''v2.bcfv''\<rparr>) None]"
  have h1: "to_dict_lax ?env ''/tmp/markup.xsd'' ''/tmp/a.bcf/t1/markup.bcf'' = Inr demo_markup"
    by code_simp
  have h2: "getOptionalFromDict demo_markup ''Comment'' (PList []) = Inr (PList ?records)"
    by code_simp
  have h3: "py_iter (PList ?records) = Inr ?records"
    by simp
  have h4: "emap (buildComment ?env) ?records = Inr ?comments"
    by code_simp
  have h5: "py_getitem demo_markup ''Topic'' = Inr (demo_topic ''t1'')"
    by code_simp
  have h6: "buildTopic ?env (demo_topic ''t1'') = Inr (demo_topic_built ''t1'')"
    by code_simp
  have h7: "getOptionalFromDict demo_markup ''Header'' PNone = Inr PNone"
    by code_simp
  have h8: "(if truthy PNone
          then ebind (py_len PNone) (\<lambda>n.
                 if n > 0 then ebind (buildHeader ?env PNone) (\<lambda>h. Inr (Some h))
                 else Inr None)
          else Inr None) = Inr None"
    by simp
  have h9: "getOptionalFromDict demo_markup ''Viewpoints'' (PList []) = Inr ?vlist"
    by code_simp
  have h10: "comprehension (buildViewpointReference ?env) ?vlist = Inr ?viewpoints"
    by code_simp
  have g1: "raw_viewpoint_id ?env (demo_comment ''c1'' ''v2'') = Inr (Some ''v2'')"
    by code_simp
  have g2: "raw_viewpoint_id ?env (demo_comment ''c2'' ''v9'') = Inr (Some ''v9'')"
    by code_simp
  from comment_viewpoint_resolved [OF h1 h2 h3 h4 h5 h6 h7 h8 h9 h10]
  obtain m where
    m: "buildMarkup ?env ''/tmp/a.bcf/t1/markup.bcf'' ''/tmp/markup.xsd'' = Inr m" and
    v: "mk_viewpoints m = ?viewpoints" and
    r: "\<And>j g. j < length ?records \<Longrightarrow> raw_viewpoint_id ?env (?records ! j) = Inr (Some g) \<Longrightarrow>
              (if \<exists>v\<in>set ?viewpoints. vr_xmlId v = g
               then \<exists>i<length ?viewpoints.
                      cm_viewpoint (mk_comments m ! j) = Linked i \<and>
                      vr_xmlId (?viewpoints ! i) = g \<and>
                      (\<forall>i'<i. vr_xmlId (?viewpoints ! i') \<noteq> g)
               else cm_viewpoint (mk_comments m ! j) = NotBuilt PNone)"
    by blast
  from r [of 0 "''v2''"] g1 have
    c1: "\<exists>i<2. cm_viewpoint (mk_comments m ! 0) = Linked i \<and> vr_xmlId (mk_viewpoints m ! i) = ''v2''"
    by (simp add: v demo_reference_built_def numeral_2_eq_2) blast
  from r [of 1 "''v9''"] g2 have c2: "cm_viewpoint (mk_comments m ! 1) = NotBuilt PNone"
    by (simp add: demo_reference_built_def)
  from m v c1 c2 have
    "\<exists>m. buildMarkup ?env ''/tmp/a.bcf/t1/markup.bcf'' ''/tmp/markup.xsd'' = Inr m \<and>
          mk_viewpoints m = ?viewpoints \<and>
          (\<exists>i<2. cm_viewpoint (mk_comments m ! 0) = Linked i \<and>
                  vr_xmlId (mk_viewpoints m ! i) = ''v2'') \<and>
          cm_viewpoint (mk_comments m ! 1) = NotBuilt PNone"
    by blast
  with h1 h2 h4 h6 h7 h10 g1 g2 show ?thesis by (intro conjI)
qed

section \<open>A viewpoint that cannot be built\<close>










section \<open>A markup without its topic\<close>

text \<open>
  C3, evaluated. The archive has two topic directories; the markup of the first lacks
  \<open>Topic\<close>, the markup of the second is complete and builds on its own. \<^verbatim>\<open>buildMarkup\<close> raises
  \<^verbatim>\<open>KeyError\<close> for the first directory and \<^verbatim>\<open>readBcfFile\<close> has no handler around that call
  (it has one around \<^verbatim>\<open>buildViewpoint\<close> only): the load ends in the exception, the second
  directory is never read and no project is returned.
\<close>

theorem missing_topic_aborts_load:
  "buildMarkup
     (demo_env (demo_files(''/tmp/a.bcf/t1/markup.bcf'' \<mapsto> demo_markup_without_topic))
        [''t1'', ''t2''])
     ''/tmp/a.bcf/t1/markup.bcf'' ''/tmp/markup.xsd'' = Inl (KeyError ''Topic'')
   \<and> buildMarkup
       (demo_env (demo_files(''/tmp/a.bcf/t1/markup.bcf'' \<mapsto> demo_markup_without_topic))
          [''t1'', ''t2''])
       ''/tmp/a.bcf/t2/markup.bcf'' ''/tmp/markup.xsd'' = Inr demo_markup_plain_built
   \<and> readBcfFile
       (demo_env (demo_files(''/tmp/a.bcf/t1/markup.bcf'' \<mapsto> demo_markup_without_topic))
          [''t1'', ''t2''])
       ''/home/u/a.bcf'' = ([], Inl (KeyError ''Topic''))"
  by code_simp

end
